theory Spec2Isabelle
  imports Main
begin

section \<open>Values the menu handles\<close>

text \<open>
  The embedding follows \<^verbatim>\<open>src/gameObjects/menus/ActionsMenu.ts\<close> (the abstract
  \<^verbatim>\<open>ActionsMenu\<close>) and the \<^verbatim>\<open>WeaponSelectorMenu\<close> class that extends it.
  Tile coordinates, pixel coordinates and counters are integral JavaScript numbers and are
  modelled as \<open>int\<close>. The cursor index is the one number that can become \<^verbatim>\<open>NaN\<close>
  (\<^verbatim>\<open>% 0\<close> in \<^verbatim>\<open>keydownDOWN\<close>), so it has a type of its own.
\<close>

datatype number = Num int | NaN

record coord =
  coord_x :: int
  coord_y :: int

text \<open>A weapon of the inventory: the menu reads \<^verbatim>\<open>weapon.name\<close> and \<^verbatim>\<open>weapon.usage\<close>.\<close>

record weapon =
  weapon_name :: string
  weapon_usage :: nat

text \<open>
  A map tile: its column and row, and \<^verbatim>\<open>tile.properties.tileUnit\<close>. The menu only walks
  \<^verbatim>\<open>tileUnit.getUnit().inventory.getWeapons()\<close>, so a present tile unit is modelled by
  the weapons it yields; \<open>None\<close> is a tile whose properties hold no \<^verbatim>\<open>tileUnit\<close>.
\<close>

record map_tile =
  tile_x :: int
  tile_y :: int
  tileUnit :: "weapon list option"

text \<open>The \<^verbatim>\<open>options\<close> argument of \<^verbatim>\<open>show\<close>; the code reads its \<^verbatim>\<open>tile\<close> property only.\<close>

record showOptions =
  options_tile :: "map_tile option"

text \<open>
  The two \<^verbatim>\<open>onClick\<close> closures that \<^verbatim>\<open>WeaponSelectorMenu\<close> hands to
  \<^verbatim>\<open>new ActionButton\<close>: the one of \<^verbatim>\<open>createCancelButton\<close> and the one of
  \<^verbatim>\<open>createWeaponButton\<close>, which captures its weapon.
\<close>

datatype click = CancelClick | WeaponClick weapon

text \<open>
  A button: the container returned by \<^verbatim>\<open>button.getContainer()\<close> together with the
  \<^verbatim>\<open>ActionButton\<close> stored as its \<^verbatim>\<open>actionButton\<close> data. \<open>button_id\<close> is the
  identity of the object; the other fields are the constructor's parameters.
\<close>

record button =
  button_id :: nat
  button_onClick :: click
  button_text :: string
  button_width :: int
  button_coord :: "coord option"

text \<open>
  Calls that leave the menu for the engine (containers, action buttons, the scene's event
  bus, the keyboard, the console, timers) are recorded in the order they are made.
\<close>

datatype effect =
    PermanentSetVisible bool
  | PermanentSetPosition int int
  | AdditionalSetPosition int int
  | AddHighlight nat
  | RemoveHighlight nat
  | ButtonEmit nat string
  | ButtonDestroy nat
  | SceneEmit string "map_tile option list"
  | SetTimeout int effect
  | KeyboardOn string
  | KeyboardOff string
  | ConsoleLog weapon

datatype error = TypeError

record linesTiles =
  top_row :: "int list"
  middle_row :: "int list"
  bottom_row :: "int list"

section \<open>The menu object\<close>

text \<open>
  The fields of the class, followed by what the menu reaches through them: the layer
  (visibility, the tiles put on it, the size of its tilemap, \<^verbatim>\<open>tileToWorldXY\<close>), the
  display height of the permanent container, the \<^verbatim>\<open>onPointerOver\<close> property of every
  action button (by button identity; the closure installed by \<^verbatim>\<open>addOverEventButtons\<close>
  is represented by the index it captured), the next free button identity and the record
  of engine calls.
\<close>

record menu =
  linesTiles :: linesTiles
  tile :: "map_tile option"
  additionalButtons :: "button list option"
  allCurrentButtons :: "button list"
  buttonsCount :: int
  textOffset :: coord
  cursorIndex :: number
  permanentButtons :: "button list"
  buttonWidth :: int
  layerVisible :: bool
  layerTiles :: "int \<times> int \<Rightarrow> int option"
  tilemapWidth :: int
  tilemapHeight :: int
  tileToWorldXY :: "int \<Rightarrow> int \<Rightarrow> coord"
  permanentDisplayHeight :: int
  onPointerOver :: "nat \<Rightarrow> int option"
  nextButtonId :: nat
  effects :: "effect list"

text \<open>
  An exception leaves the object as it was when it was thrown, so a failure carries the
  state reached: \<open>Inl (e, s)\<close>.
\<close>

type_synonym 'a result = "(error \<times> menu) + 'a"

definition andThen :: "'a result \<Rightarrow> ('a \<Rightarrow> 'b result) \<Rightarrow> 'b result" where
  "andThen r f = (case r of Inl e \<Rightarrow> Inl e | Inr v \<Rightarrow> f v)"

text \<open>A property read or method call on a value that may be \<^verbatim>\<open>undefined\<close>.\<close>

definition onReceiver :: "'a option \<Rightarrow> menu \<Rightarrow> ('a \<Rightarrow> 'b result) \<Rightarrow> 'b result" where
  "onReceiver r s f = (case r of None \<Rightarrow> Inl (TypeError, s) | Some v \<Rightarrow> f v)"

text \<open>\<^verbatim>\<open>array[i]\<close>: \<^verbatim>\<open>undefined\<close> outside the array and for \<^verbatim>\<open>NaN\<close>.\<close>

definition element :: "'a list \<Rightarrow> number \<Rightarrow> 'a option" where
  "element xs i =
     (case i of
        NaN \<Rightarrow> None
      | Num k \<Rightarrow> if 0 \<le> k \<and> k < int (length xs) then Some (xs ! nat k) else None)"

definition emitEffect :: "effect \<Rightarrow> menu \<Rightarrow> menu" where
  "emitEffect e s = s\<lparr>effects := effects s @ [e]\<rparr>"

section \<open>Panel painting\<close>

text \<open>\<^verbatim>\<open>layer.putTileAt(value, x, y)\<close> on a layer modelled as a grid of tile codes.\<close>

definition putTileAt :: "int \<Rightarrow> int \<Rightarrow> int \<Rightarrow> menu \<Rightarrow> menu" where
  "putTileAt v x y s = s\<lparr>layerTiles := (layerTiles s)((x, y) \<mapsto> v)\<rparr>"

definition putColumns :: "int list \<Rightarrow> int \<Rightarrow> int \<Rightarrow> menu \<Rightarrow> menu" where
  "putColumns columns x y s =
     fold (\<lambda>(index, v). putTileAt v (x + int index) y) (enumerate 0 columns) s"

definition createTopLine :: "int \<Rightarrow> int \<Rightarrow> menu \<Rightarrow> menu" where
  "createTopLine x y s = putColumns (top_row (linesTiles s)) x y s"

definition createMiddleLine :: "int \<Rightarrow> int \<Rightarrow> menu \<Rightarrow> menu" where
  "createMiddleLine x y s = putColumns (middle_row (linesTiles s)) x y s"

definition createBottomLine :: "int \<Rightarrow> int \<Rightarrow> menu \<Rightarrow> menu" where
  "createBottomLine x y s = putColumns (bottom_row (linesTiles s)) x y s"

text \<open>
  The \<^verbatim>\<open>for\<close> loop of \<^verbatim>\<open>createContainer\<close>: it paints the middle line of row
  \<open>y + index + 1\<close> and increments \<^verbatim>\<open>bottomY\<close>, while \<open>index < itemsCount\<close>.
\<close>

function createContainer_loop ::
  "int \<Rightarrow> int \<Rightarrow> int \<Rightarrow> int \<Rightarrow> int \<Rightarrow> menu \<Rightarrow> int \<times> menu" where
  "createContainer_loop x y itemsCount index bottomY s =
     (if index < itemsCount
      then createContainer_loop x y itemsCount (index + 1) (bottomY + 1)
             (createMiddleLine x (y + index + 1) s)
      else (bottomY, s))"
  by pat_completeness auto
termination
  by (relation "measure (\<lambda>(x, y, itemsCount, index, bottomY, s). nat (itemsCount - index))") auto

declare createContainer_loop.simps [simp del]

definition createContainer :: "coord \<Rightarrow> int \<Rightarrow> menu \<Rightarrow> menu" where
  "createContainer c itemsCount s =
     (let x = coord_x c; y = coord_y c;
          middleLineCount = max 0 (itemsCount - 2);
          bottomY = y + middleLineCount;
          s1 = createTopLine x y s;
          (bottomY', s2) = createContainer_loop x y itemsCount 0 bottomY s1
      in createBottomLine x bottomY' s2)"

section \<open>Panel placement\<close>

definition getPanelWidth :: "menu \<Rightarrow> int" where
  "getPanelWidth s =
     fold (\<lambda>columns maxTilesWidth.
             if int (length columns) > maxTilesWidth then int (length columns) else maxTilesWidth)
       [top_row (linesTiles s), middle_row (linesTiles s), bottom_row (linesTiles s)] 0"

definition getMenuCoord :: "map_tile \<Rightarrow> menu \<Rightarrow> coord" where
  "getMenuCoord cursor s =
     (let panelWidth = getPanelWidth s;
          panelHeight = buttonsCount s + 2;
          x = tile_x cursor + 1;
          y = tile_y cursor + 1;
          x = (if x + panelWidth > tilemapWidth s then x - (panelWidth + 1) else x);
          y = (if y + panelHeight > tilemapHeight s then y - panelHeight else y)
      in \<lparr>coord_x = x, coord_y = y\<rparr>)"

section \<open>Cursor navigation\<close>

text \<open>\<^verbatim>\<open>a === b\<close> on numbers: \<^verbatim>\<open>NaN\<close> equals nothing.\<close>

definition strictEq :: "number \<Rightarrow> number \<Rightarrow> bool" where
  "strictEq a b = (case (a, b) of (Num i, Num j) \<Rightarrow> i = j | _ \<Rightarrow> False)"

definition plus_number :: "number \<Rightarrow> int \<Rightarrow> number" where
  "plus_number a k = (case a of NaN \<Rightarrow> NaN | Num i \<Rightarrow> Num (i + k))"

text \<open>
  \<^verbatim>\<open>a % b\<close>: the remainder takes the sign of the dividend, and \<^verbatim>\<open>% 0\<close> is
  \<^verbatim>\<open>NaN\<close>.
\<close>

definition rem_number :: "number \<Rightarrow> int \<Rightarrow> number" where
  "rem_number a b =
     (case a of
        NaN \<Rightarrow> NaN
      | Num i \<Rightarrow> if b = 0 then NaN else Num (sgn i * (\<bar>i\<bar> mod \<bar>b\<bar>)))"

definition cursorIndexChanged :: "number \<Rightarrow> menu \<Rightarrow> menu result" where
  "cursorIndexChanged newIndex s =
     (if strictEq (cursorIndex s) newIndex then Inr s
      else
        onReceiver (element (allCurrentButtons s) (cursorIndex s)) s
          (\<lambda>previousButtonOvered.
             let s1 = emitEffect (RemoveHighlight (button_id previousButtonOvered)) s;
                 s2 = s1\<lparr>cursorIndex := newIndex\<rparr>
             in onReceiver (element (allCurrentButtons s2) (cursorIndex s2)) s2
                  (\<lambda>buttonOvered. Inr (emitEffect (AddHighlight (button_id buttonOvered)) s2))))"

definition keydownDOWN :: "menu \<Rightarrow> menu result" where
  "keydownDOWN s =
     (let newIndex = rem_number (plus_number (cursorIndex s) 1) (buttonsCount s)
      in cursorIndexChanged newIndex s)"

definition keydownENTER :: "menu \<Rightarrow> menu result" where
  "keydownENTER s =
     onReceiver (element (allCurrentButtons s) (cursorIndex s)) s
       (\<lambda>buttonOver.
          let s1 = emitEffect (RemoveHighlight (button_id buttonOver)) s
          in Inr (emitEffect (ButtonEmit (button_id buttonOver) ''pointerup'') s1))"

definition keydownUP :: "menu \<Rightarrow> menu result" where
  "keydownUP s =
     (let previousIndex = plus_number (cursorIndex s) (- 1);
          newIndex = (case previousIndex of
                        NaN \<Rightarrow> previousIndex
                      | Num p \<Rightarrow> if p < 0 then Num (buttonsCount s - 1) else previousIndex)
      in cursorIndexChanged newIndex s)"

text \<open>
  The closure \<^verbatim>\<open>() => { this.cursorIndexChanged(index); }\<close> that
  \<^verbatim>\<open>addOverEventButtons\<close> stores in a button, run for the button \<open>b\<close>.
\<close>

definition pointerOver :: "button \<Rightarrow> menu \<Rightarrow> menu result" where
  "pointerOver b s =
     (case onPointerOver s (button_id b) of
        None \<Rightarrow> Inr s
      | Some index \<Rightarrow> cursorIndexChanged (Num index) s)"

section \<open>Hiding the menu\<close>

text \<open>
  \<^verbatim>\<open>destroyContainer\<close> removes every non-empty tile of the layer.
\<close>

definition destroyContainer :: "menu \<Rightarrow> menu" where
  "destroyContainer s = s\<lparr>layerTiles := (\<lambda>p. None)\<rparr>"

text \<open>
  \<^verbatim>\<open>children.map((button) => { button.destroy(); })\<close>, where \<^verbatim>\<open>children\<close> is the
  list of the container itself. \<^verbatim>\<open>map\<close> reads the length once and then visits the
  indices below it that the array still has. A container takes a destroyed child out of
  its list, so the entries behind it move down by one while the index moves up by one.
  \<open>destroyChildren index len children s\<close> is the rest of the iteration from \<open>index\<close> on;
  it returns the list the container is left with.
\<close>

function destroyChildren :: "nat \<Rightarrow> nat \<Rightarrow> button list \<Rightarrow> menu \<Rightarrow> button list \<times> menu" where
  "destroyChildren index len children s =
     (if index < len then
        (if index < length children then
           destroyChildren (index + 1) len (take index children @ drop (Suc index) children)
             (emitEffect (ButtonDestroy (button_id (children ! index))) s)
         else destroyChildren (index + 1) len children s)
      else (children, s))"
  by pat_completeness auto
termination
  by (relation "measure (\<lambda>(index, len, children, s). len - index)") auto

declare destroyChildren.simps [simp del]

definition destroyAdditionalButtons :: "menu \<Rightarrow> menu" where
  "destroyAdditionalButtons s =
     (case additionalButtons s of
        None \<Rightarrow> s
      | Some children \<Rightarrow>
          (let (rest, s1) = destroyChildren 0 (length children) children s
           in s1\<lparr>additionalButtons := Some rest\<rparr>))"

definition disableEvents :: "menu \<Rightarrow> menu" where
  "disableEvents s =
     emitEffect (KeyboardOff ''keydown-ENTER'')
       (emitEffect (KeyboardOff ''keydown-DOWN'')
          (emitEffect (KeyboardOff ''keydown-UP'') s))"

definition removeOverEventButtons :: "menu \<Rightarrow> menu" where
  "removeOverEventButtons s =
     fold (\<lambda>b t. (emitEffect (RemoveHighlight (button_id b)) t)
                   \<lparr>onPointerOver := (onPointerOver t)(button_id b := None)\<rparr>)
       (allCurrentButtons s) s"

definition enableMapEvents :: "menu \<Rightarrow> menu" where
  "enableMapEvents s = emitEffect (SetTimeout 100 (SceneEmit ''subscribeMapEvents'' [])) s"

definition reinitializeProperties :: "menu \<Rightarrow> menu" where
  "reinitializeProperties s =
     s\<lparr>buttonsCount := 0, allCurrentButtons := [], cursorIndex := Num 0\<rparr>"

definition hide :: "menu \<Rightarrow> menu" where
  "hide s =
     (let s1 = s\<lparr>layerVisible := False\<rparr>;
          s2 = emitEffect (PermanentSetVisible False) s1
      in reinitializeProperties
           (enableMapEvents
              (removeOverEventButtons
                 (disableEvents
                    (destroyAdditionalButtons
                       (destroyContainer s2))))))"

definition isVisible :: "menu \<Rightarrow> bool" where
  "isVisible s = layerVisible s"

section \<open>Showing the menu\<close>

definition addOverEventButtons :: "menu \<Rightarrow> menu" where
  "addOverEventButtons s =
     fold (\<lambda>(index, b) t. t\<lparr>onPointerOver := (onPointerOver t)(button_id b := Some (int index))\<rparr>)
       (enumerate 0 (allCurrentButtons s)) s"

definition disableMapEvents :: "menu \<Rightarrow> menu" where
  "disableMapEvents s = emitEffect (SceneEmit ''unsubscribeMapEvents'' []) s"

definition enableEvents :: "menu \<Rightarrow> menu" where
  "enableEvents s =
     emitEffect (KeyboardOn ''keydown-ENTER'')
       (emitEffect (KeyboardOn ''keydown-DOWN'')
          (emitEffect (KeyboardOn ''keydown-UP'') s))"

definition highlightFirstButton :: "menu \<Rightarrow> menu result" where
  "highlightFirstButton s =
     onReceiver (element (allCurrentButtons s) (Num 0)) s
       (\<lambda>firstButton. Inr (emitEffect (AddHighlight (button_id firstButton)) s))"

definition showButtons :: "coord \<Rightarrow> menu \<Rightarrow> menu" where
  "showButtons c s =
     (let x = coord_x c + coord_x (textOffset s);
          y = coord_y c + coord_y (textOffset s);
          s1 = emitEffect (PermanentSetPosition x y) (emitEffect (PermanentSetVisible True) s);
          s2 = (case additionalButtons s1 of
                  None \<Rightarrow> s1
                | Some container \<Rightarrow>
                    emitEffect (AdditionalSetPosition x (y + permanentDisplayHeight s1)) s1)
      in addOverEventButtons s2)"

text \<open>
  \<^verbatim>\<open>show(cursor, options?)\<close>. The abstract \<^verbatim>\<open>createAdditionalButtons\<close> is a
  parameter. \<^verbatim>\<open>containerButtons.concat(containerAddButtons)\<close> is an expression
  statement: \<^verbatim>\<open>concat\<close> builds a new array, which the code drops (\<open>discarded\<close>).
\<close>

definition show_menu ::
  "(menu \<Rightarrow> (button list \<times> menu) result) \<Rightarrow> map_tile \<Rightarrow> showOptions option \<Rightarrow> menu \<Rightarrow> menu result" where
  "show_menu createAdditionalButtons cursor options s =
     (let s1 = (case options of None \<Rightarrow> s | Some opts \<Rightarrow> s\<lparr>tile := options_tile opts\<rparr>);
          s2 = s1\<lparr>layerVisible := True\<rparr>;
          c = getMenuCoord cursor s2;
          containerButtons = permanentButtons s2
      in andThen (createAdditionalButtons s2)
           (\<lambda>(container, s3).
              let s4 = s3\<lparr>additionalButtons := Some container\<rparr>;
                  discarded = (case additionalButtons s4 of
                                 None \<Rightarrow> containerButtons
                               | Some containerAddButtons \<Rightarrow> containerButtons @ containerAddButtons);
                  s5 = s4\<lparr>allCurrentButtons := containerButtons\<rparr>;
                  s6 = s5\<lparr>buttonsCount := int (length containerButtons)\<rparr>;
                  s7 = disableMapEvents s6;
                  s8 = createContainer c (buttonsCount s7) s7;
                  s9 = showButtons (tileToWorldXY s8 (coord_x c) (coord_y c)) s8
              in andThen (highlightFirstButton s9) (\<lambda>s10. Inr (enableEvents s10))))"

section \<open>The weapon selector menu\<close>

text \<open>Decimal digits of a count, for the template literal of a weapon button's text.\<close>

fun decimal :: "nat \<Rightarrow> string" where
  "decimal n =
     (if n < 10 then [char_of (48 + n)]
      else decimal (n div 10) @ [char_of (48 + n mod 10)])"

declare decimal.simps [simp del]

definition newActionButton ::
  "click \<Rightarrow> string \<Rightarrow> int \<Rightarrow> coord option \<Rightarrow> menu \<Rightarrow> button \<times> menu" where
  "newActionButton h t w c s =
     (\<lparr>button_id = nextButtonId s, button_onClick = h, button_text = t,
       button_width = w, button_coord = c\<rparr>,
      s\<lparr>nextButtonId := Suc (nextButtonId s)\<rparr>)"

definition createCancelButton :: "menu \<Rightarrow> button \<times> menu" where
  "createCancelButton s = newActionButton CancelClick ''cancel'' 200 None s"

definition createWeaponButton :: "weapon \<Rightarrow> coord option \<Rightarrow> menu \<Rightarrow> button \<times> menu" where
  "createWeaponButton w c s =
     newActionButton (WeaponClick w)
       (weapon_name w @ ''         x'' @ decimal (weapon_usage w)) (buttonWidth s) c s"

text \<open>\<^verbatim>\<open>weapons.map((weapon, index) => ...)\<close>, from \<open>index\<close> on.\<close>

fun createWeaponButtons :: "weapon list \<Rightarrow> nat \<Rightarrow> menu \<Rightarrow> button list \<times> menu" where
  "createWeaponButtons [] index s = ([], s)"
| "createWeaponButtons (w # ws) index s =
     (let (b, s1) = createWeaponButton w (Some \<lparr>coord_x = 0, coord_y = (int index + 1) * 30\<rparr>) s;
          (bs, s2) = createWeaponButtons ws (Suc index) s1
      in (b # bs, s2))"

definition createAdditionalButtons :: "menu \<Rightarrow> (button list \<times> menu) result" where
  "createAdditionalButtons s =
     (case tile s of
        None \<Rightarrow> Inr ([], s)
      | Some t \<Rightarrow> onReceiver (tileUnit t) s (\<lambda>weapons. Inr (createWeaponButtons weapons 0 s)))"

definition createPermanentButtons :: "menu \<Rightarrow> button list \<times> menu" where
  "createPermanentButtons s = (let (cancel, s1) = createCancelButton s in ([cancel], s1))"

text \<open>The \<^verbatim>\<open>linesTiles\<close> field of the base class and its override in the subclass.\<close>

definition ActionsMenu_linesTiles :: linesTiles where
  "ActionsMenu_linesTiles =
     \<lparr>top_row = [2668, 2669, 2669, 2670],
      middle_row = [2698, 2699, 2699, 2700],
      bottom_row = [2728, 2729, 2729, 2730]\<rparr>"

definition WeaponSelectorMenu_linesTiles :: linesTiles where
  "WeaponSelectorMenu_linesTiles =
     \<lparr>top_row = [2674, 2675, 2675, 2675, 2675, 2675, 2675, 2676],
      middle_row = [2704, 2705, 2705, 2705, 2705, 2705, 2705, 2706],
      bottom_row = [2734, 2735, 2735, 2735, 2735, 2735, 2735, 2736]\<rparr>"

text \<open>
  \<^verbatim>\<open>new WeaponSelectorMenu(scene, layer)\<close>: the field initialisers of both classes and
  the body of the base constructor. The layer is given by the size of its tilemap and its
  \<^verbatim>\<open>tileToWorldXY\<close>, the permanent container by its display height.
\<close>

definition WeaponSelectorMenu_new :: "int \<Rightarrow> int \<Rightarrow> (int \<Rightarrow> int \<Rightarrow> coord) \<Rightarrow> int \<Rightarrow> menu" where
  "WeaponSelectorMenu_new width height toWorld displayHeight =
     (let s0 = \<lparr>linesTiles = ActionsMenu_linesTiles,
                 tile = None, additionalButtons = None, allCurrentButtons = [],
                 buttonsCount = 0, textOffset = \<lparr>coord_x = 18, coord_y = 10\<rparr>,
                 cursorIndex = Num 0, permanentButtons = [], buttonWidth = 200,
                 layerVisible = True, layerTiles = (\<lambda>p. None),
                 tilemapWidth = width, tilemapHeight = height, tileToWorldXY = toWorld,
                 permanentDisplayHeight = displayHeight, onPointerOver = (\<lambda>b. None),
                 nextButtonId = 0, effects = []\<rparr>;
          (container, s1) = createPermanentButtons s0;
          s2 = s1\<lparr>permanentButtons := container\<rparr>;
          s3 = s2\<lparr>layerVisible := False\<rparr>;
          s4 = emitEffect (PermanentSetVisible False) s3
      in s4\<lparr>linesTiles := WeaponSelectorMenu_linesTiles, buttonWidth := 200\<rparr>)"

definition WeaponSelectorMenu_show :: "map_tile \<Rightarrow> showOptions option \<Rightarrow> menu \<Rightarrow> menu result" where
  "WeaponSelectorMenu_show = show_menu createAdditionalButtons"

text \<open>
  \<^verbatim>\<open>sendAction(action)\<close>; \<open>weaponSelectorEvent\<close> is the \<^verbatim>\<open>eventName\<close> imported from
  \<^verbatim>\<open>actions/weaponSelector\<close>, a parameter here.
\<close>

definition sendAction :: "string \<Rightarrow> string \<Rightarrow> menu \<Rightarrow> menu" where
  "sendAction weaponSelectorEvent action s =
     emitEffect (SceneEmit (weaponSelectorEvent @ action) [tile s]) s"

text \<open>
  The call \<^verbatim>\<open>this.hide()\<close> as an expression: \<^verbatim>\<open>hide\<close> has no \<^verbatim>\<open>return\<close>
  statement, so the value of the call is \<^verbatim>\<open>undefined\<close>.
\<close>

definition hide_call :: "menu \<Rightarrow> menu option \<times> menu" where
  "hide_call s = (None, hide s)"

text \<open>
  The \<^verbatim>\<open>onClick\<close> closures. \<open>cancelAction\<close> is \<^verbatim>\<open>WeaponSelectorActions.cancel\<close>,
  imported like \<open>weaponSelectorEvent\<close>. The cancel closure calls \<^verbatim>\<open>sendAction\<close> on
  the value of \<^verbatim>\<open>this.hide()\<close>.
\<close>

fun onClick :: "string \<Rightarrow> string \<Rightarrow> click \<Rightarrow> menu \<Rightarrow> menu result" where
  "onClick weaponSelectorEvent cancelAction CancelClick s =
     (let (receiver, s1) = hide_call s
      in onReceiver receiver s1
           (\<lambda>this. Inr (sendAction weaponSelectorEvent cancelAction this)))"
| "onClick weaponSelectorEvent cancelAction (WeaponClick w) s =
     (let s1 = hide s in Inr (emitEffect (ConsoleLog w) s1))"

section \<open>Concrete menus\<close>

definition sword :: weapon where
  "sword = \<lparr>weapon_name = ''sword'', weapon_usage = 30\<rparr>"

definition axe :: weapon where
  "axe = \<lparr>weapon_name = ''axe'', weapon_usage = 12\<rparr>"

definition unitTile :: map_tile where
  "unitTile = \<lparr>tile_x = 3, tile_y = 4, tileUnit = Some [sword, axe]\<rparr>"

definition toWorld16 :: "int \<Rightarrow> int \<Rightarrow> coord" where
  "toWorld16 x y = \<lparr>coord_x = 16 * x, coord_y = 16 * y\<rparr>"

text \<open>A weapon selector menu on a map of 30 by 20 tiles, and one on a map of 10 by 10.\<close>

definition exampleMenu :: menu where
  "exampleMenu = WeaponSelectorMenu_new 30 20 toWorld16 30"

definition smallMapMenu :: menu where
  "smallMapMenu = WeaponSelectorMenu_new 10 10 toWorld16 30"

text \<open>The engine calls made on the way from \<open>s\<close> to \<open>s'\<close>.\<close>

definition effectsSince :: "menu \<Rightarrow> menu \<Rightarrow> effect list" where
  "effectsSince s s' = drop (length (effects s)) (effects s')"

fun isSceneEmit :: "effect \<Rightarrow> bool" where
  "isSceneEmit (SceneEmit n args) = True"
| "isSceneEmit e = False"

text \<open>
  Every emission on the scene's event bus that an engine call stands for, with its name
  and arguments: the call itself, or the call a timer will make.
\<close>

fun sceneEmits :: "effect \<Rightarrow> (string \<times> map_tile option list) list" where
  "sceneEmits (SceneEmit n args) = [(n, args)]"
| "sceneEmits (SetTimeout delay e) = sceneEmits e"
| "sceneEmits e = []"

definition allSceneEmits :: "effect list \<Rightarrow> (string \<times> map_tile option list) list" where
  "allSceneEmits es = concat (map sceneEmits es)"

text \<open>
  Of the children of a container, those that \<^verbatim>\<open>destroyAdditionalButtons\<close> destroys (the
  first, the third, ...) and those it passes over, which stay in the container.
\<close>

fun destroyedChildren :: "'a list \<Rightarrow> 'a list" where
  "destroyedChildren [] = []"
| "destroyedChildren [x] = [x]"
| "destroyedChildren (x # y # xs) = x # destroyedChildren xs"

fun skippedChildren :: "'a list \<Rightarrow> 'a list" where
  "skippedChildren [] = []"
| "skippedChildren [x] = []"
| "skippedChildren (x # y # xs) = y # skippedChildren xs"

text \<open>The cancel button that the constructor builds: the first action button created.\<close>

definition cancelButton :: button where
  "cancelButton =
     \<lparr>button_id = 0, button_onClick = CancelClick, button_text = ''cancel'',
      button_width = 200, button_coord = None\<rparr>"

text \<open>The example menu shown for the unit on \<open>unitTile\<close>, which carries two weapons.\<close>

definition shownExample :: "menu result" where
  "shownExample =
     WeaponSelectorMenu_show unitTile (Some \<lparr>options_tile = Some unitTile\<rparr>) exampleMenu"

text \<open>The engine calls of one \<^verbatim>\<open>hide()\<close>, in order.\<close>

definition hideEffects :: "menu \<Rightarrow> effect list" where
  "hideEffects s =
     [PermanentSetVisible False] @
     map (\<lambda>b. ButtonDestroy (button_id b))
       (case additionalButtons s of None \<Rightarrow> [] | Some children \<Rightarrow> destroyedChildren children) @
     [KeyboardOff ''keydown-UP'', KeyboardOff ''keydown-DOWN'', KeyboardOff ''keydown-ENTER''] @
     map (\<lambda>b. RemoveHighlight (button_id b)) (allCurrentButtons s) @
     [SetTimeout 100 (SceneEmit ''subscribeMapEvents'' [])]"

text \<open>A state with three navigable buttons and the cursor on the last one.\<close>

definition threeButtons :: "button list" where
  "threeButtons = [cancelButton, cancelButton\<lparr>button_id := 1\<rparr>, cancelButton\<lparr>button_id := 2\<rparr>]"

definition threeButtonMenu :: menu where
  "threeButtonMenu =
     exampleMenu\<lparr>allCurrentButtons := threeButtons, buttonsCount := 3, cursorIndex := Num 2\<rparr>"

text \<open>
  A menu whose permanent container is empty, and a \<^verbatim>\<open>createAdditionalButtons\<close> that
  returns an empty container.
\<close>

definition emptyMenu :: menu where
  "emptyMenu = exampleMenu\<lparr>permanentButtons := []\<rparr>"

definition noContextButtons :: "menu \<Rightarrow> (button list \<times> menu) result" where
  "noContextButtons s = Inr ([], s)"

text \<open>The example menu hidden, then shown again without options.\<close>

definition reshownExample :: "menu result" where
  "reshownExample = WeaponSelectorMenu_show unitTile None (hide (projr shownExample))"

text \<open>Two reference tiles: the bottom right tile of the example map, and tile (5, 5).\<close>

definition cornerTile :: map_tile where
  "cornerTile = \<lparr>tile_x = 29, tile_y = 19, tileUnit = None\<rparr>"

definition innerTile :: map_tile where
  "innerTile = \<lparr>tile_x = 5, tile_y = 5, tileUnit = None\<rparr>"

section \<open>What each step leaves unchanged\<close>

lemma fold_putTileAt_frame:
  "\<exists>f. fold (\<lambda>(index, v). putTileAt v (x + int index) y) xs s = s\<lparr>layerTiles := f\<rparr>"
proof (induction xs arbitrary: s)
  case Nil
  have "s = s\<lparr>layerTiles := layerTiles s\<rparr>" by simp
  then show ?case by (metis fold_simps(1))
next
  case (Cons a xs)
  obtain i v where a: "a = (i, v)" by (cases a)
  obtain f where "fold (\<lambda>(index, v). putTileAt v (x + int index) y) xs (putTileAt v (x + int i) y s)
      = (putTileAt v (x + int i) y s)\<lparr>layerTiles := f\<rparr>"
    using Cons.IH by blast
  then have "fold (\<lambda>(index, v). putTileAt v (x + int index) y) (a # xs) s = s\<lparr>layerTiles := f\<rparr>"
    by (simp add: a putTileAt_def)
  then show ?case by blast
qed

lemma putColumns_frame: "\<exists>f. putColumns columns x y s = s\<lparr>layerTiles := f\<rparr>"
  unfolding putColumns_def by (rule fold_putTileAt_frame)

lemma createMiddleLine_frame: "\<exists>f. createMiddleLine x y s = s\<lparr>layerTiles := f\<rparr>"
  unfolding createMiddleLine_def by (rule putColumns_frame)

lemma createContainer_loop_frame:
  "\<exists>f. snd (createContainer_loop x y itemsCount index bottomY s) = s\<lparr>layerTiles := f\<rparr>"
proof (induction x y itemsCount index bottomY s rule: createContainer_loop.induct)
  case (1 x y itemsCount index bottomY s)
  show ?case
  proof (cases "index < itemsCount")
    case True
    obtain g where g: "createMiddleLine x (y + index + 1) s = s\<lparr>layerTiles := g\<rparr>"
      using createMiddleLine_frame by blast
    obtain f where "snd (createContainer_loop x y itemsCount (index + 1) (bottomY + 1)
        (createMiddleLine x (y + index + 1) s)) = (createMiddleLine x (y + index + 1) s)\<lparr>layerTiles := f\<rparr>"
      using "1.IH" [OF True] by blast
    then have "snd (createContainer_loop x y itemsCount index bottomY s) = s\<lparr>layerTiles := f\<rparr>"
      using True by (subst createContainer_loop.simps) (simp add: g)
    then show ?thesis by blast
  next
    case False
    have "s = s\<lparr>layerTiles := layerTiles s\<rparr>" by simp
    then have "snd (createContainer_loop x y itemsCount index bottomY s) = s\<lparr>layerTiles := layerTiles s\<rparr>"
      using False by (subst createContainer_loop.simps) simp
    then show ?thesis by blast
  qed
qed

lemma createContainer_frame: "\<exists>f. createContainer c itemsCount s = s\<lparr>layerTiles := f\<rparr>"
proof -
  obtain f1 where f1: "createTopLine (coord_x c) (coord_y c) s = s\<lparr>layerTiles := f1\<rparr>"
    unfolding createTopLine_def using putColumns_frame by blast
  obtain b s2 where l: "createContainer_loop (coord_x c) (coord_y c) itemsCount 0
      (coord_y c + max 0 (itemsCount - 2)) (s\<lparr>layerTiles := f1\<rparr>) = (b, s2)"
    by (cases "createContainer_loop (coord_x c) (coord_y c) itemsCount 0
      (coord_y c + max 0 (itemsCount - 2)) (s\<lparr>layerTiles := f1\<rparr>)")
  obtain f2 where "s2 = (s\<lparr>layerTiles := f1\<rparr>)\<lparr>layerTiles := f2\<rparr>"
    using createContainer_loop_frame [of "coord_x c" "coord_y c" itemsCount 0
      "coord_y c + max 0 (itemsCount - 2)" "s\<lparr>layerTiles := f1\<rparr>"] l by auto
  then have s2: "s2 = s\<lparr>layerTiles := f2\<rparr>" by simp
  obtain f3 where "createBottomLine (coord_x c) b s2 = s2\<lparr>layerTiles := f3\<rparr>"
    unfolding createBottomLine_def using putColumns_frame by blast
  then have "createContainer c itemsCount s = s\<lparr>layerTiles := f3\<rparr>"
    by (simp add: createContainer_def Let_def f1 l s2)
  then show ?thesis by blast
qed

lemma addOverEventButtons_frame: "\<exists>f. addOverEventButtons s = s\<lparr>onPointerOver := f\<rparr>"
proof -
  have "\<exists>f. fold (\<lambda>(index, b) t. t\<lparr>onPointerOver := (onPointerOver t)(button_id b := Some (int index))\<rparr>) xs t
      = t\<lparr>onPointerOver := f\<rparr>" for xs :: "(nat \<times> button) list" and t :: menu
  proof (induction xs arbitrary: t)
    case Nil
    have "t = t\<lparr>onPointerOver := onPointerOver t\<rparr>" by simp
    then show ?case by (metis fold_simps(1))
  next
    case (Cons a xs)
    obtain i b where a: "a = (i, b)" by (cases a)
    obtain f where "fold (\<lambda>(index, b) t. t\<lparr>onPointerOver := (onPointerOver t)(button_id b := Some (int index))\<rparr>) xs
        (t\<lparr>onPointerOver := (onPointerOver t)(button_id b := Some (int i))\<rparr>)
        = (t\<lparr>onPointerOver := (onPointerOver t)(button_id b := Some (int i))\<rparr>)\<lparr>onPointerOver := f\<rparr>"
      using Cons.IH by blast
    then have "fold (\<lambda>(index, b) t. t\<lparr>onPointerOver := (onPointerOver t)(button_id b := Some (int index))\<rparr>) (a # xs) t
        = t\<lparr>onPointerOver := f\<rparr>"
      by (simp add: a)
    then show ?case by blast
  qed
  then show ?thesis unfolding addOverEventButtons_def by blast
qed

lemma showButtons_frame:
  "\<exists>f es. showButtons c s = s\<lparr>onPointerOver := f, effects := effects s @ es\<rparr>
     \<and> filter isSceneEmit es = []"
proof -
  let ?x = "coord_x c + coord_x (textOffset s)"
  let ?y = "coord_y c + coord_y (textOffset s)"
  let ?es = "[PermanentSetVisible True, PermanentSetPosition ?x ?y] @
     (case additionalButtons s of None \<Rightarrow> [] | Some container \<Rightarrow> [AdditionalSetPosition ?x (?y + permanentDisplayHeight s)])"
  let ?s2 = "s\<lparr>effects := effects s @ ?es\<rparr>"
  obtain f where "addOverEventButtons ?s2 = ?s2\<lparr>onPointerOver := f\<rparr>"
    using addOverEventButtons_frame by blast
  then have "showButtons c s = s\<lparr>onPointerOver := f, effects := effects s @ ?es\<rparr>"
    by (cases "additionalButtons s") (simp_all add: showButtons_def Let_def emitEffect_def)
  moreover have "filter isSceneEmit ?es = []"
    by (cases "additionalButtons s") simp_all
  ultimately show ?thesis by blast
qed

lemma destroyChildren_past_end:
  "length children \<le> index \<Longrightarrow> destroyChildren index len children s = (children, s)"
proof (induction index len children s rule: destroyChildren.induct)
  case (1 index len children s)
  show ?case
  proof (cases "index < len")
    case True
    then show ?thesis
      using "1.IH"(2) "1.prems" by (subst destroyChildren.simps) simp
  next
    case False
    then show ?thesis by (subst destroyChildren.simps) simp
  qed
qed

lemma destroyChildren_eq:
  "length kept + length rest \<le> len \<Longrightarrow>
     destroyChildren (length kept) len (kept @ rest) s
       = (kept @ skippedChildren rest,
          s\<lparr>effects := effects s @ map (\<lambda>b. ButtonDestroy (button_id b)) (destroyedChildren rest)\<rparr>)"
proof (induction rest arbitrary: kept s rule: destroyedChildren.induct)
  case 1
  then show ?case by (simp add: destroyChildren_past_end)
next
  case (2 x)
  then have "destroyChildren (length kept) len (kept @ [x]) s
      = destroyChildren (length kept + 1) len kept (emitEffect (ButtonDestroy (button_id x)) s)"
    by (subst destroyChildren.simps) simp
  then show ?case
    by (simp add: destroyChildren_past_end emitEffect_def)
next
  case (3 x y xs)
  have step: "destroyChildren (length kept) len (kept @ x # y # xs) s
      = destroyChildren (length (kept @ [y])) len ((kept @ [y]) @ xs)
          (emitEffect (ButtonDestroy (button_id x)) s)"
    using "3.prems" by (subst destroyChildren.simps) simp
  have "destroyChildren (length (kept @ [y])) len ((kept @ [y]) @ xs)
          (emitEffect (ButtonDestroy (button_id x)) s)
      = ((kept @ [y]) @ skippedChildren xs,
         (emitEffect (ButtonDestroy (button_id x)) s)
           \<lparr>effects := effects (emitEffect (ButtonDestroy (button_id x)) s)
              @ map (\<lambda>b. ButtonDestroy (button_id b)) (destroyedChildren xs)\<rparr>)"
    using "3.prems" by (intro "3.IH") simp
  then show ?case
    unfolding step by (simp add: emitEffect_def)
qed

lemma destroyAdditionalButtons_eq:
  "destroyAdditionalButtons s =
     s\<lparr>additionalButtons := map_option skippedChildren (additionalButtons s),
       effects := effects s @ map (\<lambda>b. ButtonDestroy (button_id b))
        (case additionalButtons s of None \<Rightarrow> [] | Some children \<Rightarrow> destroyedChildren children)\<rparr>"
proof (cases "additionalButtons s")
  case None
  then show ?thesis by (simp add: destroyAdditionalButtons_def)
next
  case (Some children)
  have "destroyChildren (length ([] :: button list)) (length children) ([] @ children) s
      = ([] @ skippedChildren children,
         s\<lparr>effects := effects s @ map (\<lambda>b. ButtonDestroy (button_id b)) (destroyedChildren children)\<rparr>)"
    by (rule destroyChildren_eq) simp
  then show ?thesis
    using Some by (simp add: destroyAdditionalButtons_def)
qed

lemma fold_removeOver:
  "\<exists>f. fold (\<lambda>b t. (emitEffect (RemoveHighlight (button_id b)) t)
                   \<lparr>onPointerOver := (onPointerOver t)(button_id b := None)\<rparr>) bs t
     = t\<lparr>onPointerOver := f, effects := effects t @ map (\<lambda>b. RemoveHighlight (button_id b)) bs\<rparr>"
proof (induction bs arbitrary: t)
  case Nil
  have "t = t\<lparr>onPointerOver := onPointerOver t, effects := effects t @ map (\<lambda>b. RemoveHighlight (button_id b)) []\<rparr>"
    by simp
  then show ?case by (metis fold_simps(1))
next
  case (Cons b bs)
  let ?t = "(emitEffect (RemoveHighlight (button_id b)) t)\<lparr>onPointerOver := (onPointerOver t)(button_id b := None)\<rparr>"
  obtain f where "fold (\<lambda>b t. (emitEffect (RemoveHighlight (button_id b)) t)
                   \<lparr>onPointerOver := (onPointerOver t)(button_id b := None)\<rparr>) bs ?t
     = ?t\<lparr>onPointerOver := f, effects := effects ?t @ map (\<lambda>b. RemoveHighlight (button_id b)) bs\<rparr>"
    using Cons.IH by blast
  then have "fold (\<lambda>b t. (emitEffect (RemoveHighlight (button_id b)) t)
                   \<lparr>onPointerOver := (onPointerOver t)(button_id b := None)\<rparr>) (b # bs) t
     = t\<lparr>onPointerOver := f, effects := effects t @ map (\<lambda>b. RemoveHighlight (button_id b)) (b # bs)\<rparr>"
    by (simp add: emitEffect_def)
  then show ?case by blast
qed

lemma hide_shape:
  "\<exists>f. hide s = s\<lparr>allCurrentButtons := [], buttonsCount := 0, cursorIndex := Num 0,
                   additionalButtons := map_option skippedChildren (additionalButtons s),
                   layerVisible := False, layerTiles := (\<lambda>p. None), onPointerOver := f,
                   effects := effects s @ hideEffects s\<rparr>"
proof -
  let ?s4 = "disableEvents (destroyAdditionalButtons (destroyContainer
               (emitEffect (PermanentSetVisible False) (s\<lparr>layerVisible := False\<rparr>))))"
  obtain f where f: "removeOverEventButtons ?s4
      = ?s4\<lparr>onPointerOver := f, effects := effects ?s4 @ map (\<lambda>b. RemoveHighlight (button_id b)) (allCurrentButtons ?s4)\<rparr>"
    unfolding removeOverEventButtons_def using fold_removeOver by blast
  have "hide s = s\<lparr>allCurrentButtons := [], buttonsCount := 0, cursorIndex := Num 0,
                   additionalButtons := map_option skippedChildren (additionalButtons s),
                   layerVisible := False, layerTiles := (\<lambda>p. None), onPointerOver := f,
                   effects := effects s @ hideEffects s\<rparr>"
    unfolding hide_def Let_def f
    by (simp add: reinitializeProperties_def enableMapEvents_def disableEvents_def
        destroyAdditionalButtons_eq destroyContainer_def emitEffect_def hideEffects_def)
  then show ?thesis by blast
qed

lemma hideEffects_no_SceneEmit: "filter isSceneEmit (hideEffects s) = []"
  by (simp add: hideEffects_def)

lemma allSceneEmits_hideEffects: "allSceneEmits (hideEffects s) = [(''subscribeMapEvents'', [])]"
proof -
  have "concat (map sceneEmits (map (\<lambda>b. ButtonDestroy (button_id b)) bs)) = []"
    and "concat (map sceneEmits (map (\<lambda>b. RemoveHighlight (button_id b)) bs)) = []"
    for bs :: "button list"
    by (induction bs) simp_all
  then show ?thesis
    by (simp add: allSceneEmits_def hideEffects_def)
qed

lemma allSceneEmits_append: "allSceneEmits (xs @ ys) = allSceneEmits xs @ allSceneEmits ys"
  by (simp add: allSceneEmits_def)

lemma allSceneEmits_single: "allSceneEmits [e] = sceneEmits e"
  by (simp add: allSceneEmits_def)

lemma createContainer_fields:
  "allCurrentButtons (createContainer c n s) = allCurrentButtons s"
  "buttonsCount (createContainer c n s) = buttonsCount s"
  "additionalButtons (createContainer c n s) = additionalButtons s"
  "permanentButtons (createContainer c n s) = permanentButtons s"
  "tile (createContainer c n s) = tile s"
  "cursorIndex (createContainer c n s) = cursorIndex s"
  "layerVisible (createContainer c n s) = layerVisible s"
  "effects (createContainer c n s) = effects s"
proof -
  obtain f where "createContainer c n s = s\<lparr>layerTiles := f\<rparr>"
    using createContainer_frame by blast
  then show "allCurrentButtons (createContainer c n s) = allCurrentButtons s"
    "buttonsCount (createContainer c n s) = buttonsCount s"
    "additionalButtons (createContainer c n s) = additionalButtons s"
    "permanentButtons (createContainer c n s) = permanentButtons s"
    "tile (createContainer c n s) = tile s"
    "cursorIndex (createContainer c n s) = cursorIndex s"
    "layerVisible (createContainer c n s) = layerVisible s"
    "effects (createContainer c n s) = effects s"
    by simp_all
qed

lemma showButtons_fields:
  "allCurrentButtons (showButtons c s) = allCurrentButtons s"
  "buttonsCount (showButtons c s) = buttonsCount s"
  "additionalButtons (showButtons c s) = additionalButtons s"
  "permanentButtons (showButtons c s) = permanentButtons s"
  "tile (showButtons c s) = tile s"
  "cursorIndex (showButtons c s) = cursorIndex s"
  "layerVisible (showButtons c s) = layerVisible s"
proof -
  obtain f es where "showButtons c s = s\<lparr>onPointerOver := f, effects := effects s @ es\<rparr>"
    using showButtons_frame by blast
  then show "allCurrentButtons (showButtons c s) = allCurrentButtons s"
    "buttonsCount (showButtons c s) = buttonsCount s"
    "additionalButtons (showButtons c s) = additionalButtons s"
    "permanentButtons (showButtons c s) = permanentButtons s"
    "tile (showButtons c s) = tile s"
    "cursorIndex (showButtons c s) = cursorIndex s"
    "layerVisible (showButtons c s) = layerVisible s"
    by simp_all
qed

lemma show_menu_result:
  assumes cab: "createAdditionalButtons'
      ((case options of None \<Rightarrow> s | Some opts \<Rightarrow> s\<lparr>tile := options_tile opts\<rparr>)\<lparr>layerVisible := True\<rparr>)
        = Inr (container, sAfter)"
    and ne: "permanentButtons s \<noteq> []"
  shows "\<exists>s'. show_menu createAdditionalButtons' cursor options s = Inr s'
     \<and> allCurrentButtons s' = permanentButtons s
     \<and> buttonsCount s' = int (length (permanentButtons s))
     \<and> additionalButtons s' = Some container
     \<and> tile s' = tile sAfter \<and> cursorIndex s' = cursorIndex sAfter
     \<and> layerVisible s' = layerVisible sAfter \<and> permanentButtons s' = permanentButtons sAfter"
proof -
  have p2: "permanentButtons ((case options of None \<Rightarrow> s | Some opts \<Rightarrow> s\<lparr>tile := options_tile opts\<rparr>)\<lparr>layerVisible := True\<rparr>)
     = permanentButtons s"
    by (cases options) simp_all
  obtain b bs where bs: "permanentButtons s = b # bs"
    using ne by (cases "permanentButtons s") auto
  show ?thesis
    unfolding show_menu_def Let_def cab andThen_def p2
    by (simp add: highlightFirstButton_def onReceiver_def element_def createContainer_fields
        showButtons_fields disableMapEvents_def enableEvents_def emitEffect_def bs)
qed

section \<open>The weapon selector menu as constructed\<close>

lemma WeaponSelectorMenu_new_fields:
  "linesTiles (WeaponSelectorMenu_new w h tw dh) = WeaponSelectorMenu_linesTiles"
  "permanentButtons (WeaponSelectorMenu_new w h tw dh) = [cancelButton]"
  "tile (WeaponSelectorMenu_new w h tw dh) = None"
  "buttonsCount (WeaponSelectorMenu_new w h tw dh) = 0"
  "allCurrentButtons (WeaponSelectorMenu_new w h tw dh) = []"
  "cursorIndex (WeaponSelectorMenu_new w h tw dh) = Num 0"
  "tilemapWidth (WeaponSelectorMenu_new w h tw dh) = w"
  "tilemapHeight (WeaponSelectorMenu_new w h tw dh) = h"
  "layerTiles (WeaponSelectorMenu_new w h tw dh) = (\<lambda>p. None)"
  "nextButtonId (WeaponSelectorMenu_new w h tw dh) = 1"
  "buttonWidth (WeaponSelectorMenu_new w h tw dh) = 200"
  "effects (WeaponSelectorMenu_new w h tw dh) = [PermanentSetVisible False]"
  "layerVisible (WeaponSelectorMenu_new w h tw dh) = False"
  by (simp_all add: WeaponSelectorMenu_new_def createPermanentButtons_def createCancelButton_def
      newActionButton_def emitEffect_def Let_def cancelButton_def WeaponSelectorMenu_linesTiles_def)

lemma getPanelWidth_weapon: "linesTiles s = WeaponSelectorMenu_linesTiles \<Longrightarrow> getPanelWidth s = 8"
  by (simp add: getPanelWidth_def WeaponSelectorMenu_linesTiles_def)

lemma createContainer_loop_bottomY:
  "fst (createContainer_loop x y itemsCount index bottomY s) = bottomY + max 0 (itemsCount - index)"
proof (induction x y itemsCount index bottomY s rule: createContainer_loop.induct)
  case (1 x y itemsCount index bottomY s)
  show ?case
  proof (cases "index < itemsCount")
    case True
    then show ?thesis
      using "1.IH" [OF True] by (subst createContainer_loop.simps) simp
  next
    case False
    then show ?thesis by (subst createContainer_loop.simps) simp
  qed
qed

lemma createWeaponButtons_result:
  "map button_onClick (fst (createWeaponButtons ws i s)) = map WeaponClick ws
   \<and> snd (createWeaponButtons ws i s) = s\<lparr>nextButtonId := nextButtonId s + length ws\<rparr>"
proof (induction ws arbitrary: i s)
  case Nil
  show ?case by simp
next
  case (Cons w ws)
  let ?s1 = "s\<lparr>nextButtonId := Suc (nextButtonId s)\<rparr>"
  have "map button_onClick (fst (createWeaponButtons ws (Suc i) ?s1)) = map WeaponClick ws"
    and "snd (createWeaponButtons ws (Suc i) ?s1) = ?s1\<lparr>nextButtonId := nextButtonId ?s1 + length ws\<rparr>"
    using Cons.IH [of "Suc i" ?s1] by simp_all
  then show ?case
    by (simp add: createWeaponButton_def newActionButton_def split_beta)
qed

lemma createAdditionalButtons_no_tile:
  "tile s = None \<Longrightarrow> createAdditionalButtons s = Inr ([], s)"
  by (simp add: createAdditionalButtons_def)

lemma createAdditionalButtons_weapons:
  assumes "tile s = Some t" and "tileUnit t = Some weapons"
  shows "\<exists>container. createAdditionalButtons s
           = Inr (container, s\<lparr>nextButtonId := nextButtonId s + length weapons\<rparr>)
         \<and> map button_onClick container = map WeaponClick weapons"
proof -
  have "createAdditionalButtons s = Inr (createWeaponButtons weapons 0 s)"
    using assms by (simp add: createAdditionalButtons_def onReceiver_def)
  then have "createAdditionalButtons s = Inr (fst (createWeaponButtons weapons 0 s),
      s\<lparr>nextButtonId := nextButtonId s + length weapons\<rparr>)"
    using createWeaponButtons_result [of weapons 0 s] by (metis prod.collapse)
  then show ?thesis using createWeaponButtons_result [of weapons 0 s] by blast
qed

lemma createAdditionalButtons_state:
  assumes "createAdditionalButtons s = Inr (container, s')"
  shows "\<exists>n. s' = s\<lparr>nextButtonId := n\<rparr>"
proof (cases "tile s")
  case None
  then have "s' = s\<lparr>nextButtonId := nextButtonId s\<rparr>"
    using assms by (simp add: createAdditionalButtons_no_tile)
  then show ?thesis by blast
next
  case (Some t)
  show ?thesis
  proof (cases "tileUnit t")
    case None
    then show ?thesis
      using assms Some by (simp add: createAdditionalButtons_def onReceiver_def)
  next
    case (Some weapons)
    then show ?thesis
      using assms \<open>tile s = Some t\<close> createAdditionalButtons_weapons [of s t weapons] by auto
  qed
qed

lemma shownExample_result:
  "\<exists>s' container. shownExample = Inr s' \<and> allCurrentButtons s' = [cancelButton] \<and> buttonsCount s' = 1
     \<and> additionalButtons s' = Some container
     \<and> map button_onClick container = [WeaponClick sword, WeaponClick axe]
     \<and> tile s' = Some unitTile"
proof -
  let ?s2 = "exampleMenu\<lparr>tile := Some unitTile, layerVisible := True\<rparr>"
  obtain container where c: "createAdditionalButtons ?s2
      = Inr (container, ?s2\<lparr>nextButtonId := nextButtonId ?s2 + length [sword, axe]\<rparr>)"
    and m: "map button_onClick container = map WeaponClick [sword, axe]"
    using createAdditionalButtons_weapons [of ?s2 unitTile "[sword, axe]"]
    by (auto simp: unitTile_def)
  have p: "permanentButtons exampleMenu = [cancelButton]"
    by (simp add: exampleMenu_def WeaponSelectorMenu_new_fields)
  show ?thesis
    using show_menu_result [where createAdditionalButtons' = createAdditionalButtons
        and options = "Some \<lparr>options_tile = Some unitTile\<rparr>" and s = exampleMenu
        and cursor = unitTile and container = container] c m p
    by (auto simp: shownExample_def WeaponSelectorMenu_show_def)
qed

section \<open>Hide and show on the weapon selector menu\<close>

lemma hide_fields:
  "tile (hide s) = tile s" "permanentButtons (hide s) = permanentButtons s"
  "additionalButtons (hide s) = map_option skippedChildren (additionalButtons s)"
  "layerVisible (hide s) = False"
  "effects (hide s) = effects s @ hideEffects s" "allCurrentButtons (hide s) = []"
proof -
  obtain f where "hide s = s\<lparr>allCurrentButtons := [], buttonsCount := 0, cursorIndex := Num 0,
                   additionalButtons := map_option skippedChildren (additionalButtons s),
                   layerVisible := False, layerTiles := (\<lambda>p. None), onPointerOver := f,
                   effects := effects s @ hideEffects s\<rparr>"
    using hide_shape by blast
  then show "tile (hide s) = tile s" "permanentButtons (hide s) = permanentButtons s"
    "additionalButtons (hide s) = map_option skippedChildren (additionalButtons s)"
    "layerVisible (hide s) = False"
    "effects (hide s) = effects s @ hideEffects s" "allCurrentButtons (hide s) = []"
    by simp_all
qed

lemma show_menu_empty_fails:
  assumes "permanentButtons s = []"
  shows "isl (show_menu createAdditionalButtons' cursor options s)"
proof -
  have p2: "permanentButtons ((case options of None \<Rightarrow> s | Some opts \<Rightarrow> s\<lparr>tile := options_tile opts\<rparr>)\<lparr>layerVisible := True\<rparr>) = []"
    using assms by (cases options) simp_all
  show ?thesis
    unfolding show_menu_def Let_def andThen_def p2
    by (simp add: highlightFirstButton_def onReceiver_def element_def createContainer_fields
        showButtons_fields disableMapEvents_def emitEffect_def split: sum.splits prod.splits)
qed

lemma WeaponSelectorMenu_show_tile:
  assumes "WeaponSelectorMenu_show cursor options s = Inr s'"
  shows "tile s' = (case options of None \<Rightarrow> tile s | Some opts \<Rightarrow> options_tile opts)
     \<and> permanentButtons s' = permanentButtons s"
proof -
  let ?s2 = "(case options of None \<Rightarrow> s | Some opts \<Rightarrow> s\<lparr>tile := options_tile opts\<rparr>)\<lparr>layerVisible := True\<rparr>"
  have ne: "permanentButtons s \<noteq> []"
    using assms show_menu_empty_fails [of s createAdditionalButtons cursor options]
    by (auto simp: WeaponSelectorMenu_show_def)
  show ?thesis
  proof (cases "createAdditionalButtons ?s2")
    case (Inl e)
    then show ?thesis
      using assms by (simp add: WeaponSelectorMenu_show_def show_menu_def Let_def andThen_def)
  next
    case (Inr r)
    obtain container s3 where r: "r = (container, s3)" by (cases r)
    obtain n where s3: "s3 = ?s2\<lparr>nextButtonId := n\<rparr>"
      using createAdditionalButtons_state Inr r by blast
    have "tile s' = tile s3 \<and> permanentButtons s' = permanentButtons s3"
      using show_menu_result [where createAdditionalButtons' = createAdditionalButtons
          and options = options and s = s and cursor = cursor and container = container
          and sAfter = s3] Inr r ne assms
      by (auto simp: WeaponSelectorMenu_show_def)
    then show ?thesis
      by (cases options) (simp_all add: s3)
  qed
qed

lemma WeaponSelectorMenu_show_weapons:
  assumes "permanentButtons s \<noteq> []"
    and "(case options of None \<Rightarrow> tile s | Some opts \<Rightarrow> options_tile opts) = Some t"
    and "tileUnit t = Some weapons"
  shows "\<exists>s' container. WeaponSelectorMenu_show cursor options s = Inr s'
     \<and> additionalButtons s' = Some container
     \<and> map button_onClick container = map WeaponClick weapons
     \<and> allCurrentButtons s' = permanentButtons s"
proof -
  let ?s2 = "(case options of None \<Rightarrow> s | Some opts \<Rightarrow> s\<lparr>tile := options_tile opts\<rparr>)\<lparr>layerVisible := True\<rparr>"
  have "tile ?s2 = Some t"
    using assms(2) by (cases options) simp_all
  then obtain container where c: "createAdditionalButtons ?s2
      = Inr (container, ?s2\<lparr>nextButtonId := nextButtonId ?s2 + length weapons\<rparr>)"
    and m: "map button_onClick container = map WeaponClick weapons"
    using createAdditionalButtons_weapons [of ?s2 t weapons] assms(3) by blast
  show ?thesis
    using show_menu_result [where createAdditionalButtons' = createAdditionalButtons
        and options = options and s = s and cursor = cursor and container = container
        and sAfter = "?s2\<lparr>nextButtonId := nextButtonId ?s2 + length weapons\<rparr>"] c m assms(1)
    unfolding WeaponSelectorMenu_show_def by auto
qed

lemma shownExample_state:
  "shownExample = Inr (projr shownExample)"
  "tile (projr shownExample) = Some unitTile"
  "permanentButtons (projr shownExample) = [cancelButton]"
  "map button_onClick (the (additionalButtons (projr shownExample))) = [WeaponClick sword, WeaponClick axe]"
proof -
  obtain s' container where r: "shownExample = Inr s'"
    and f: "additionalButtons s' = Some container"
      "map button_onClick container = [WeaponClick sword, WeaponClick axe]"
      "tile s' = Some unitTile"
    using shownExample_result by auto
  have "permanentButtons s' = [cancelButton]"
    using WeaponSelectorMenu_show_tile [of unitTile "Some \<lparr>options_tile = Some unitTile\<rparr>" exampleMenu s'] r
    by (simp add: shownExample_def exampleMenu_def WeaponSelectorMenu_new_fields)
  then show "shownExample = Inr (projr shownExample)"
    "tile (projr shownExample) = Some unitTile"
    "permanentButtons (projr shownExample) = [cancelButton]"
    "map button_onClick (the (additionalButtons (projr shownExample))) = [WeaponClick sword, WeaponClick axe]"
    unfolding r by (simp_all add: f)
qed

lemma reshownExample_state: "reshownExample = Inr (projr reshownExample)"
proof -
  obtain s' where "reshownExample = Inr s'"
    using WeaponSelectorMenu_show_weapons [where s = "hide (projr shownExample)" and options = None
        and t = unitTile and weapons = "[sword, axe]" and cursor = unitTile]
    by (auto simp: reshownExample_def hide_fields shownExample_state(2,3) unitTile_def)
  then show ?thesis by (metis sum.sel(2))
qed

lemma reshownExample_buttons:
  "map button_onClick (the (additionalButtons (projr reshownExample)))
     = [WeaponClick sword, WeaponClick axe]"
  "allCurrentButtons (projr reshownExample) = [cancelButton]"
proof -
  obtain s' container where r: "reshownExample = Inr s'"
    and f: "additionalButtons s' = Some container"
      "map button_onClick container = [WeaponClick sword, WeaponClick axe]"
      "allCurrentButtons s' = [cancelButton]"
    using WeaponSelectorMenu_show_weapons [where s = "hide (projr shownExample)" and options = None
        and t = unitTile and weapons = "[sword, axe]" and cursor = unitTile]
    by (auto simp: reshownExample_def hide_fields shownExample_state(2,3) unitTile_def)
  show "map button_onClick (the (additionalButtons (projr reshownExample)))
     = [WeaponClick sword, WeaponClick axe]"
    "allCurrentButtons (projr reshownExample) = [cancelButton]"
    unfolding r by (simp_all add: f)
qed

lemma shownExample_buttons:
  "map button_id (the (additionalButtons (projr shownExample))) = [1, 2]"
  "allCurrentButtons (projr shownExample) = [cancelButton]"
proof -
  let ?s2 = "exampleMenu\<lparr>tile := Some unitTile, layerVisible := True\<rparr>"
  let ?r = "createWeaponButtons [sword, axe] 0 ?s2"
  have c: "createAdditionalButtons
      ((case Some \<lparr>options_tile = Some unitTile\<rparr> of None \<Rightarrow> exampleMenu
         | Some opts \<Rightarrow> exampleMenu\<lparr>tile := options_tile opts\<rparr>)\<lparr>layerVisible := True\<rparr>)
      = Inr (fst ?r, snd ?r)"
    by (simp add: createAdditionalButtons_def onReceiver_def unitTile_def)
  have ids: "map button_id (fst ?r) = [1, 2]"
    by (simp add: createWeaponButton_def newActionButton_def split_beta exampleMenu_def
        WeaponSelectorMenu_new_fields)
  have p: "permanentButtons exampleMenu \<noteq> []" "permanentButtons exampleMenu = [cancelButton]"
    by (simp_all add: exampleMenu_def WeaponSelectorMenu_new_fields)
  obtain s' where r: "shownExample = Inr s'"
    and f: "additionalButtons s' = Some (fst ?r)" "allCurrentButtons s' = [cancelButton]"
    using show_menu_result [where createAdditionalButtons' = createAdditionalButtons
        and options = "Some \<lparr>options_tile = Some unitTile\<rparr>" and s = exampleMenu
        and cursor = unitTile and container = "fst ?r" and sAfter = "snd ?r", OF c p(1)] p(2)
    by (auto simp: shownExample_def WeaponSelectorMenu_show_def)
  have "map button_id (the (additionalButtons s')) = [1, 2]"
    by (simp only: f(1) option.sel ids)
  then show "map button_id (the (additionalButtons (projr shownExample))) = [1, 2]"
    "allCurrentButtons (projr shownExample) = [cancelButton]"
    unfolding r by (simp_all add: f(2))
qed

lemma destroyedChildren_map: "map f (destroyedChildren xs) = destroyedChildren (map f xs)"
  by (induction xs rule: destroyedChildren.induct) simp_all

lemma hideEffects_shownExample:
  "hideEffects (projr shownExample) =
     [PermanentSetVisible False, ButtonDestroy 1,
      KeyboardOff ''keydown-UP'', KeyboardOff ''keydown-DOWN'', KeyboardOff ''keydown-ENTER'',
      RemoveHighlight 0, SetTimeout 100 (SceneEmit ''subscribeMapEvents'' [])]"
proof -
  obtain children where c: "additionalButtons (projr shownExample) = Some children"
    using shownExample_result shownExample_state(1) by (metis sum.inject(2))
  then have "map button_id children = [1, 2]"
    using shownExample_buttons(1) by simp
  then have "map button_id (destroyedChildren children) = [1]"
    by (simp add: destroyedChildren_map)
  then have "map (\<lambda>b. ButtonDestroy (button_id b)) (destroyedChildren children) = [ButtonDestroy 1]"
    using map_map [of ButtonDestroy button_id "destroyedChildren children"]
    by (simp add: comp_def)
  then show ?thesis
    by (simp add: hideEffects_def c shownExample_buttons(2) cancelButton_def)
qed

lemma threeButtonMenu_fields:
  "cursorIndex threeButtonMenu = Num 2" "buttonsCount threeButtonMenu = 3"
  "allCurrentButtons threeButtonMenu = threeButtons" "length threeButtons = 3"
  by (simp_all add: threeButtonMenu_def threeButtons_def)

section \<open>Steps of the cursor\<close>

lemma element_in_range:
  "0 \<le> i \<Longrightarrow> i < int (length xs) \<Longrightarrow> element xs (Num i) = Some (xs ! nat i)"
  by (simp add: element_def)

lemma cursorIndexChanged_in_range:
  assumes "cursorIndex s = Num i" and "0 \<le> i" and "i < int (length (allCurrentButtons s))"
    and "0 \<le> j" and "j < int (length (allCurrentButtons s))"
  shows "\<exists>s'. cursorIndexChanged (Num j) s = Inr s' \<and> cursorIndex s' = Num j
     \<and> buttonsCount s' = buttonsCount s \<and> allCurrentButtons s' = allCurrentButtons s"
proof (cases "i = j")
  case True
  then show ?thesis using assms by (simp add: cursorIndexChanged_def strictEq_def)
next
  case False
  then show ?thesis
    using assms
    by (simp add: cursorIndexChanged_def strictEq_def onReceiver_def element_in_range Let_def
        emitEffect_def)
qed

lemma keydownDOWN_step:
  assumes "cursorIndex s = Num i" and "0 \<le> i" and "i < buttonsCount s"
    and "int (length (allCurrentButtons s)) = buttonsCount s"
  shows "\<exists>d. keydownDOWN s = Inr d \<and> cursorIndex d = Num ((i + 1) mod buttonsCount s)
     \<and> buttonsCount d = buttonsCount s \<and> allCurrentButtons d = allCurrentButtons s"
proof -
  let ?n = "buttonsCount s"
  have n: "0 < ?n" using assms by simp
  have idx: "rem_number (plus_number (cursorIndex s) 1) ?n = Num ((i + 1) mod ?n)"
    using assms n by (simp add: rem_number_def plus_number_def sgn_if)
  have len: "i < int (length (allCurrentButtons s))"
    using assms by simp
  have r: "0 \<le> (i + 1) mod ?n" "(i + 1) mod ?n < int (length (allCurrentButtons s))"
    using n assms by simp_all
  show ?thesis
    unfolding keydownDOWN_def Let_def idx
    by (rule cursorIndexChanged_in_range [OF assms(1) assms(2) len r])
qed

lemma keydownUP_step:
  assumes "cursorIndex s = Num i" and "0 \<le> i" and "i < buttonsCount s"
    and "int (length (allCurrentButtons s)) = buttonsCount s"
  shows "\<exists>u. keydownUP s = Inr u \<and> cursorIndex u = Num ((i - 1 + buttonsCount s) mod buttonsCount s)
     \<and> buttonsCount u = buttonsCount s \<and> allCurrentButtons u = allCurrentButtons s"
proof -
  let ?n = "buttonsCount s"
  let ?up = "(i - 1 + ?n) mod ?n"
  have n: "0 < ?n" using assms by simp
  have idx: "(case plus_number (cursorIndex s) (- 1) of
        NaN \<Rightarrow> plus_number (cursorIndex s) (- 1)
      | Num p \<Rightarrow> if p < 0 then Num (?n - 1) else plus_number (cursorIndex s) (- 1)) = Num ?up"
  proof (cases "i = 0")
    case True
    then show ?thesis using n assms by (simp add: plus_number_def zmod_minus1)
  next
    case False
    then have "0 \<le> i - 1" "i - 1 < ?n" using assms by simp_all
    then have "?up = i - 1" by simp
    then show ?thesis using \<open>0 \<le> i - 1\<close> assms by (simp add: plus_number_def)
  qed
  have len: "i < int (length (allCurrentButtons s))"
    using assms by simp
  have r: "0 \<le> ?up" "?up < int (length (allCurrentButtons s))"
    using n assms by simp_all
  show ?thesis
    unfolding keydownUP_def Let_def idx
    by (rule cursorIndexChanged_in_range [OF assms(1) assms(2) len r])
qed

lemma keydownDOWN_no_buttons:
  assumes "buttonsCount s = 0"
  shows "rem_number (plus_number (cursorIndex s) 1) (buttonsCount s) = NaN \<and> isl (keydownDOWN s)"
proof -
  have nan: "rem_number (plus_number (cursorIndex s) 1) (buttonsCount s) = NaN"
    using assms by (cases "cursorIndex s") (simp_all add: rem_number_def plus_number_def)
  have "isl (cursorIndexChanged NaN s)"
    by (cases "element (allCurrentButtons s) (cursorIndex s)")
      (simp_all add: cursorIndexChanged_def strictEq_def onReceiver_def element_def Let_def
        emitEffect_def split: number.splits)
  then show ?thesis
    using nan by (simp add: keydownDOWN_def Let_def)
qed

lemma keys_on_empty_list:
  assumes "allCurrentButtons s = []"
  shows "isl (keydownENTER s)"
    and "buttonsCount s = 0 \<Longrightarrow> cursorIndex s = Num 0 \<Longrightarrow> isl (keydownUP s)"
  using assms
  by (auto simp: keydownENTER_def keydownUP_def cursorIndexChanged_def strictEq_def
      onReceiver_def element_def plus_number_def Let_def split: number.splits)

section \<open>The click handlers\<close>

text \<open>
  The cancel handler hides the menu, and then fails: \<^verbatim>\<open>this.hide()\<close> evaluates to
  \<^verbatim>\<open>undefined\<close>, so \<^verbatim>\<open>sendAction\<close> is never reached and nothing is emitted.
\<close>

lemma cancel_onClick_throws:
  "onClick weaponSelectorEvent cancelAction CancelClick s = Inl (TypeError, hide s)"
  by (simp add: hide_call_def onReceiver_def)

lemma weapon_onClick:
  "onClick weaponSelectorEvent cancelAction (WeaponClick w) s = Inr (emitEffect (ConsoleLog w) (hide s))"
  by simp

section \<open>The navigable list after show\<close>

text \<open>
  C1 says that after \<^verbatim>\<open>show()\<close> the navigable list holds the P permanent buttons
  followed by the N context buttons, and that \<^verbatim>\<open>buttonsCount\<close> is N + P. The code calls
  \<^verbatim>\<open>containerButtons.concat(containerAddButtons)\<close> and drops the array it returns. On
  the example menu (one permanent button) shown for a unit with two weapons, the two context
  buttons are created, yet the navigable list is the permanent list alone and
  \<^verbatim>\<open>buttonsCount\<close> is 1, not 3.
\<close>

theorem show_drops_context_buttons:
  "\<not> isl shownExample
   \<and> length (permanentButtons exampleMenu) = 1
   \<and> map_option length (additionalButtons (projr shownExample)) = Some 2
   \<and> allCurrentButtons (projr shownExample) = permanentButtons exampleMenu
   \<and> length (allCurrentButtons (projr shownExample)) = 1
   \<and> buttonsCount (projr shownExample) = 1"
proof -
  obtain s' container where r: "shownExample = Inr s'"
    and f: "allCurrentButtons s' = [cancelButton]" "buttonsCount s' = 1"
      "additionalButtons s' = Some container"
    and m: "map button_onClick container = [WeaponClick sword, WeaponClick axe]"
    using shownExample_result by auto
  have l: "length container = 2"
    using map_eq_imp_length_eq [of button_onClick container id "[WeaponClick sword, WeaponClick axe]"] m
    by simp
  have p: "permanentButtons exampleMenu = [cancelButton]"
    by (simp add: exampleMenu_def WeaponSelectorMenu_new_fields)
  show ?thesis
    unfolding r by (simp add: f l p)
qed

section \<open>What the buttons of the weapon selector do\<close>

text \<open>
  C2 as stated, that every button of the weapon selector, when activated, first emits a
  domain action event on the scene event bus and then hides the menu, fails for the weapon
  buttons: the handler of the sword button of the example menu hides the menu and returns
  without an \<^verbatim>\<open>emit\<close> on the scene's event bus. The one emission it leaves behind is
  the \<^verbatim>\<open>subscribeMapEvents\<close> that \<^verbatim>\<open>hide()\<close> schedules, which carries no tile.
\<close>

theorem weapon_click_emits_nothing:
  "map button_onClick (the (additionalButtons (projr shownExample)))
     = [WeaponClick sword, WeaponClick axe]
   \<and> \<not> isl (onClick ''weaponSelector.'' ''cancel'' (WeaponClick sword) (projr shownExample))
   \<and> \<not> isVisible (projr (onClick ''weaponSelector.'' ''cancel'' (WeaponClick sword) (projr shownExample)))
   \<and> filter isSceneEmit
        (effectsSince (projr shownExample)
           (projr (onClick ''weaponSelector.'' ''cancel'' (WeaponClick sword) (projr shownExample))))
      = []
   \<and> allSceneEmits
        (effectsSince (projr shownExample)
           (projr (onClick ''weaponSelector.'' ''cancel'' (WeaponClick sword) (projr shownExample))))
      = [(''subscribeMapEvents'', [])]"
  by (simp add: shownExample_state(4) isVisible_def emitEffect_def hide_fields effectsSince_def
      hideEffects_no_SceneEmit allSceneEmits_append allSceneEmits_single
      allSceneEmits_hideEffects)

text \<open>
  C2 as amended: for a tile whose unit carries the weapons \<open>weapons\<close>,
  \<^verbatim>\<open>createAdditionalButtons\<close> builds one button per weapon, in order, each with the
  weapon handler for its weapon, and \<^verbatim>\<open>createPermanentButtons\<close> builds the one cancel
  button. A weapon button, when activated, first hides the menu and then logs its weapon
  to the console. It emits no domain action event: it makes no \<^verbatim>\<open>emit\<close> call on the
  scene event bus itself, and the only emission it causes there is the
  \<^verbatim>\<open>subscribeMapEvents\<close> event, without payload, that \<^verbatim>\<open>hide()\<close> schedules with a
  timer of 100 ms.
\<close>

theorem weapon_buttons_hide_and_log:
  assumes "tile s = Some t" and "tileUnit t = Some weapons"
  shows "(\<exists>container s'. createAdditionalButtons s = Inr (container, s')
            \<and> map button_onClick container = map WeaponClick weapons)
     \<and> map button_onClick (fst (createPermanentButtons s)) = [CancelClick]
     \<and> (\<exists>m'. onClick weaponSelectorEvent cancelAction (WeaponClick w) m = Inr m'
            \<and> \<not> isVisible m' \<and> allCurrentButtons m' = []
            \<and> effectsSince m m' = hideEffects m @ [ConsoleLog w]
            \<and> filter isSceneEmit (effectsSince m m') = []
            \<and> allSceneEmits (effectsSince m m') = [(''subscribeMapEvents'', [])])"
proof -
  have "\<exists>container s'. createAdditionalButtons s = Inr (container, s')
            \<and> map button_onClick container = map WeaponClick weapons"
    using createAdditionalButtons_weapons [OF assms] by blast
  moreover have "map button_onClick (fst (createPermanentButtons s)) = [CancelClick]"
    by (simp add: createPermanentButtons_def createCancelButton_def newActionButton_def)
  moreover have "effectsSince m (emitEffect (ConsoleLog w) (hide m)) = hideEffects m @ [ConsoleLog w]"
    by (simp add: effectsSince_def emitEffect_def hide_fields)
  moreover have "\<not> isVisible (emitEffect (ConsoleLog w) (hide m))"
    "allCurrentButtons (emitEffect (ConsoleLog w) (hide m)) = []"
    by (simp_all add: isVisible_def emitEffect_def hide_fields)
  ultimately show ?thesis
    by (simp add: hideEffects_no_SceneEmit allSceneEmits_append allSceneEmits_single
        allSceneEmits_hideEffects)
qed

text \<open>
  On the example menu shown with its two weapon buttons (identities 1 and 2), the
  \<^verbatim>\<open>hide()\<close> of the axe button's handler destroys the first weapon button only.
\<close>

theorem weapon_buttons_hide_and_log_witness:
  "tile (projr shownExample) = Some unitTile \<and> tileUnit unitTile = Some [sword, axe]
   \<and> (\<exists>container s'. createAdditionalButtons (projr shownExample) = Inr (container, s')
          \<and> map button_onClick container = [WeaponClick sword, WeaponClick axe])
   \<and> (\<exists>m'. onClick ''weaponSelector.'' ''cancel'' (WeaponClick axe) (projr shownExample) = Inr m'
          \<and> \<not> isVisible m'
          \<and> effectsSince (projr shownExample) m'
              = [PermanentSetVisible False, ButtonDestroy 1,
                 KeyboardOff ''keydown-UP'', KeyboardOff ''keydown-DOWN'',
                 KeyboardOff ''keydown-ENTER'', RemoveHighlight 0,
                 SetTimeout 100 (SceneEmit ''subscribeMapEvents'' []), ConsoleLog axe]
          \<and> allSceneEmits (effectsSince (projr shownExample) m') = [(''subscribeMapEvents'', [])])"
  using weapon_buttons_hide_and_log [where s = "projr shownExample" and t = unitTile
      and weapons = "[sword, axe]" and w = axe and m = "projr shownExample"
      and weaponSelectorEvent = "''weaponSelector.''" and cancelAction = "''cancel''"]
  by (simp add: shownExample_state(2) unitTile_def hideEffects_shownExample allSceneEmits_def)

section \<open>The rows of the painted panel\<close>

text \<open>
  \<^verbatim>\<open>bottomY\<close> starts at \<open>y + max 0 (itemsCount - 2)\<close> and the loop adds one for
  every middle row (\<open>createContainer_loop_bottomY\<close>). With four items the middle rows are
  rows 1 to 4, row 5 stays empty and the bottom border is painted at row 6.
\<close>

lemma createContainer_four_items:
  "map (\<lambda>y. layerTiles (createContainer \<lparr>coord_x = 0, coord_y = 0\<rparr> 4 exampleMenu) (0, y)) [0, 1, 2, 3, 4, 5, 6]
    = [Some 2674, Some 2704, Some 2704, Some 2704, Some 2704, None, Some 2734]"
  by (simp add: createContainer_def Let_def createTopLine_def createMiddleLine_def
      createBottomLine_def putColumns_def putTileAt_def createContainer_loop.simps
      exampleMenu_def WeaponSelectorMenu_new_fields WeaponSelectorMenu_linesTiles_def)

text \<open>
  C3 says that \<^verbatim>\<open>createContainer\<close> paints the top border at row y, middle rows at
  rows y+1 to y+itemsCount and the bottom border at row y+itemsCount+1. With one item on
  the example menu, at the origin, the code paints the top border at row 0 and then the
  bottom border at row 1, over the middle row painted there; row 2, where the claim puts
  the bottom border, stays empty.
\<close>

theorem createContainer_one_item:
  "layerTiles (createContainer \<lparr>coord_x = 0, coord_y = 0\<rparr> 1 exampleMenu) (0, 0) = Some 2674 \<and>
   layerTiles (createContainer \<lparr>coord_x = 0, coord_y = 0\<rparr> 1 exampleMenu) (0, 1) = Some 2734 \<and>
   layerTiles (createContainer \<lparr>coord_x = 0, coord_y = 0\<rparr> 1 exampleMenu) (0, 2) = None"
  by (simp add: createContainer_def Let_def createTopLine_def createMiddleLine_def
      createBottomLine_def putColumns_def putTileAt_def createContainer_loop.simps
      exampleMenu_def WeaponSelectorMenu_new_fields WeaponSelectorMenu_linesTiles_def)

section \<open>Where the panel is placed\<close>

text \<open>
  C4 as stated, that for every reference tile inside the map the returned coordinates are
  never negative, fails: on a map of 10 by 10 tiles the weapon selector panel is 8 tiles
  wide, and for the tile in column 5 the shift to the left gives column -3.
\<close>

theorem getMenuCoord_negative:
  "0 \<le> tile_x innerTile \<and> tile_x innerTile < tilemapWidth smallMapMenu
   \<and> 0 \<le> tile_y innerTile \<and> tile_y innerTile < tilemapHeight smallMapMenu
   \<and> getPanelWidth smallMapMenu = 8
   \<and> coord_x (getMenuCoord innerTile smallMapMenu) = - 3"
  by (simp add: getMenuCoord_def Let_def smallMapMenu_def innerTile_def
      WeaponSelectorMenu_new_fields getPanelWidth_weapon)

text \<open>
  C4 as amended: for a reference tile inside the map, when the map is at least twice the
  panel width wide and at least \<open>2 * (buttonsCount + 2) - 1\<close> rows high, with
  \<^verbatim>\<open>buttonsCount\<close> the value of the field when \<^verbatim>\<open>getMenuCoord\<close> is called, the
  returned coordinates are not negative and the rectangle of width \<^verbatim>\<open>panelWidth\<close> and
  height \<open>buttonsCount + 2\<close> placed there lies within the width and height of the map.
\<close>

theorem getMenuCoord_fits:
  assumes "0 \<le> tile_x cursor" and "tile_x cursor < tilemapWidth s"
    and "0 \<le> tile_y cursor" and "tile_y cursor < tilemapHeight s"
    and "2 * getPanelWidth s \<le> tilemapWidth s"
    and "2 * (buttonsCount s + 2) - 1 \<le> tilemapHeight s"
  shows "0 \<le> coord_x (getMenuCoord cursor s)
     \<and> coord_x (getMenuCoord cursor s) + getPanelWidth s \<le> tilemapWidth s
     \<and> 0 \<le> coord_y (getMenuCoord cursor s)
     \<and> coord_y (getMenuCoord cursor s) + (buttonsCount s + 2) \<le> tilemapHeight s"
  using assms by (simp add: getMenuCoord_def Let_def)

theorem getMenuCoord_fits_witness:
  "0 \<le> tile_x cornerTile \<and> tile_x cornerTile < tilemapWidth exampleMenu
   \<and> 0 \<le> tile_y cornerTile \<and> tile_y cornerTile < tilemapHeight exampleMenu
   \<and> 2 * getPanelWidth exampleMenu \<le> tilemapWidth exampleMenu
   \<and> 2 * (buttonsCount exampleMenu + 2) - 1 \<le> tilemapHeight exampleMenu
   \<and> getMenuCoord cornerTile exampleMenu = \<lparr>coord_x = 21, coord_y = 18\<rparr>
   \<and> 0 \<le> coord_x (getMenuCoord cornerTile exampleMenu)
   \<and> coord_x (getMenuCoord cornerTile exampleMenu) + getPanelWidth exampleMenu
        \<le> tilemapWidth exampleMenu
   \<and> 0 \<le> coord_y (getMenuCoord cornerTile exampleMenu)
   \<and> coord_y (getMenuCoord cornerTile exampleMenu) + (buttonsCount exampleMenu + 2)
        \<le> tilemapHeight exampleMenu"
  using getMenuCoord_fits [of cornerTile exampleMenu]
  by (simp add: exampleMenu_def cornerTile_def WeaponSelectorMenu_new_fields getPanelWidth_weapon
      getMenuCoord_def Let_def)

section \<open>Moving the cursor\<close>

text \<open>
  C5: in a state where the cursor index \<open>i\<close> lies in \<open>[0, buttonsCount)\<close> and the
  navigable list has \<^verbatim>\<open>buttonsCount\<close> entries (so \<^verbatim>\<open>buttonsCount\<close> is at least 1), a DOWN
  keypress succeeds and moves the cursor to \<open>(i + 1) mod buttonsCount\<close>, an UP keypress
  succeeds and moves it to \<open>(i - 1 + buttonsCount) mod buttonsCount\<close>; both leave the
  count and the list as they were, so the index stays in range, and DOWN then UP, like UP
  then DOWN, brings the cursor back to \<open>i\<close>.
\<close>

theorem cursor_navigation:
  assumes "cursorIndex s = Num i" and "0 \<le> i" and "i < buttonsCount s"
    and "int (length (allCurrentButtons s)) = buttonsCount s"
  shows "(\<exists>d. keydownDOWN s = Inr d \<and> cursorIndex d = Num ((i + 1) mod buttonsCount s)
            \<and> buttonsCount d = buttonsCount s \<and> allCurrentButtons d = allCurrentButtons s
            \<and> 0 \<le> (i + 1) mod buttonsCount s \<and> (i + 1) mod buttonsCount s < buttonsCount s
            \<and> (\<exists>u. keydownUP d = Inr u \<and> cursorIndex u = Num i))
       \<and> (\<exists>u. keydownUP s = Inr u \<and> cursorIndex u = Num ((i - 1 + buttonsCount s) mod buttonsCount s)
            \<and> buttonsCount u = buttonsCount s \<and> allCurrentButtons u = allCurrentButtons s
            \<and> 0 \<le> (i - 1 + buttonsCount s) mod buttonsCount s
            \<and> (i - 1 + buttonsCount s) mod buttonsCount s < buttonsCount s
            \<and> (\<exists>d. keydownDOWN u = Inr d \<and> cursorIndex d = Num i))"
proof -
  let ?n = "buttonsCount s"
  let ?down = "(i + 1) mod ?n"
  let ?up = "(i - 1 + ?n) mod ?n"
  have n: "0 < ?n" using assms by simp
  have down_range: "0 \<le> ?down" "?down < ?n" using n by simp_all
  have up_range: "0 \<le> ?up" "?up < ?n" using n by simp_all
  have back_up: "(?down - 1 + ?n) mod ?n = i"
    using assms by (simp add: mod_simps)
  have back_down: "(?up + 1) mod ?n = i"
    using assms by (simp add: mod_simps)
  obtain d where d: "keydownDOWN s = Inr d" "cursorIndex d = Num ?down"
    "buttonsCount d = ?n" "allCurrentButtons d = allCurrentButtons s"
    using keydownDOWN_step [OF assms] by auto
  obtain u where u: "keydownUP s = Inr u" "cursorIndex u = Num ?up"
    "buttonsCount u = ?n" "allCurrentButtons u = allCurrentButtons s"
    using keydownUP_step [OF assms] by auto
  have "\<exists>u'. keydownUP d = Inr u' \<and> cursorIndex u' = Num i"
    using keydownUP_step [of d ?down] d down_range assms(4) back_up by auto
  moreover have "\<exists>d'. keydownDOWN u = Inr d' \<and> cursorIndex d' = Num i"
    using keydownDOWN_step [of u ?up] u up_range assms(4) back_down by auto
  ultimately show ?thesis
    using d u down_range up_range by auto
qed

theorem cursor_navigation_witness:
  "cursorIndex threeButtonMenu = Num 2 \<and> (0::int) \<le> 2 \<and> 2 < buttonsCount threeButtonMenu
   \<and> int (length (allCurrentButtons threeButtonMenu)) = buttonsCount threeButtonMenu
   \<and> (\<exists>d. keydownDOWN threeButtonMenu = Inr d \<and> cursorIndex d = Num 0
          \<and> (\<exists>u. keydownUP d = Inr u \<and> cursorIndex u = Num 2))
   \<and> (\<exists>u. keydownUP threeButtonMenu = Inr u \<and> cursorIndex u = Num 1
          \<and> (\<exists>d. keydownDOWN u = Inr d \<and> cursorIndex d = Num 2))"
  using cursor_navigation [of threeButtonMenu 2]
  by (auto simp: threeButtonMenu_fields)

section \<open>Activating the button under the cursor\<close>

text \<open>
  C6: with the cursor on a button of the navigable list, an ENTER keypress removes the
  highlight of that button and emits \<^verbatim>\<open>pointerup\<close> on it; these are the only two
  engine calls it makes, so no other button is activated.
\<close>

theorem enter_activates_cursor_button:
  assumes "cursorIndex s = Num i" and "0 \<le> i" and "i < int (length (allCurrentButtons s))"
  shows "\<exists>s'. keydownENTER s = Inr s'
     \<and> effects s' = effects s @ [RemoveHighlight (button_id (allCurrentButtons s ! nat i)),
                                   ButtonEmit (button_id (allCurrentButtons s ! nat i)) ''pointerup'']
     \<and> cursorIndex s' = cursorIndex s \<and> allCurrentButtons s' = allCurrentButtons s
     \<and> buttonsCount s' = buttonsCount s"
  using assms
  by (simp add: keydownENTER_def onReceiver_def element_in_range Let_def emitEffect_def)

theorem enter_activates_cursor_button_witness:
  "cursorIndex threeButtonMenu = Num 2 \<and> (0::int) \<le> 2
   \<and> 2 < int (length (allCurrentButtons threeButtonMenu))
   \<and> (\<exists>s'. keydownENTER threeButtonMenu = Inr s'
        \<and> effects s' = effects threeButtonMenu @ [RemoveHighlight 2, ButtonEmit 2 ''pointerup''])"
  using enter_activates_cursor_button [of threeButtonMenu 2]
  by (auto simp: threeButtonMenu_fields threeButtons_def)

section \<open>Hiding resets the navigation state\<close>

text \<open>
  C7: after \<^verbatim>\<open>hide()\<close>, whatever the state before, \<^verbatim>\<open>buttonsCount\<close> is 0, the cursor
  index is 0 and the navigable button list is empty.
\<close>

theorem hide_resets_navigation:
  "buttonsCount (hide s) = 0 \<and> cursorIndex (hide s) = Num 0 \<and> allCurrentButtons (hide s) = []"
  by (simp add: hide_def reinitializeProperties_def Let_def)

section \<open>Showing without a context tile\<close>

text \<open>
  C8 as stated, that when no options are passed to \<^verbatim>\<open>show\<close> the weapon selector's
  \<^verbatim>\<open>createAdditionalButtons\<close> returns an empty container and the menu shows only the
  permanent buttons, fails when a tile is still stored: the example menu, shown for the
  unit tile and hidden, keeps that tile, and \<^verbatim>\<open>show\<close> without options then builds
  the two weapon buttons from it.
\<close>

theorem show_without_options_uses_stored_tile:
  "tile (hide (projr shownExample)) = Some unitTile
   \<and> WeaponSelectorMenu_show unitTile None (hide (projr shownExample)) = reshownExample
   \<and> \<not> isl reshownExample
   \<and> map button_onClick (the (additionalButtons (projr reshownExample)))
       = [WeaponClick sword, WeaponClick axe]
   \<and> additionalButtons (projr reshownExample) \<noteq> Some []"
proof -
  have m: "map button_onClick (the (additionalButtons (projr reshownExample)))
       = [WeaponClick sword, WeaponClick axe]"
    by (rule reshownExample_buttons(1))
  have "additionalButtons (projr reshownExample) \<noteq> Some []"
  proof
    assume "additionalButtons (projr reshownExample) = Some []"
    then show False using m by simp
  qed
  moreover have "\<not> isl reshownExample"
    by (subst reshownExample_state) simp
  ultimately show ?thesis
    using m by (simp add: hide_fields shownExample_state(2) reshownExample_def)
qed

text \<open>
  C8 as amended: when no tile is stored in the menu as \<^verbatim>\<open>createAdditionalButtons\<close>
  runs, that is when \<^verbatim>\<open>show\<close> is called without options on a menu whose tile field
  is unset, or with options that carry no tile, \<^verbatim>\<open>createAdditionalButtons\<close> of the
  weapon selector returns an empty container and does not fail, and \<^verbatim>\<open>show\<close>, on a
  menu that has a permanent button, succeeds: no tile is stored, the menu is visible, the
  context container is empty and the navigable list is the list of permanent buttons.
\<close>

theorem show_without_stored_tile:
  assumes "(case options of None \<Rightarrow> tile s | Some opts \<Rightarrow> options_tile opts) = None"
    and "permanentButtons s \<noteq> []"
  shows "(tile s = None \<longrightarrow> createAdditionalButtons s = Inr ([], s))
     \<and> (\<exists>s'. WeaponSelectorMenu_show cursor options s = Inr s'
            \<and> tile s' = None
            \<and> additionalButtons s' = Some []
            \<and> allCurrentButtons s' = permanentButtons s
            \<and> buttonsCount s' = int (length (permanentButtons s))
            \<and> isVisible s')"
proof -
  let ?s2 = "(case options of None \<Rightarrow> s | Some opts \<Rightarrow> s\<lparr>tile := options_tile opts\<rparr>)\<lparr>layerVisible := True\<rparr>"
  have t: "tile ?s2 = None"
    using assms(1) by (cases options) simp_all
  then have c: "createAdditionalButtons ?s2 = Inr ([], ?s2)"
    by (rule createAdditionalButtons_no_tile)
  have v: "layerVisible ?s2" by simp
  obtain s' where "show_menu createAdditionalButtons cursor options s = Inr s'"
    "allCurrentButtons s' = permanentButtons s"
    "buttonsCount s' = int (length (permanentButtons s))"
    "additionalButtons s' = Some []" "tile s' = tile ?s2" "layerVisible s' = layerVisible ?s2"
    using show_menu_result [where createAdditionalButtons' = createAdditionalButtons
        and options = options and s = s and cursor = cursor and container = "[]"
        and sAfter = ?s2] c assms(2)
    by auto
  then have "\<exists>s'. WeaponSelectorMenu_show cursor options s = Inr s'
            \<and> tile s' = None
            \<and> additionalButtons s' = Some []
            \<and> allCurrentButtons s' = permanentButtons s
            \<and> buttonsCount s' = int (length (permanentButtons s))
            \<and> isVisible s'"
    using t v by (simp add: WeaponSelectorMenu_show_def isVisible_def)
  then show ?thesis
    by (simp add: createAdditionalButtons_no_tile)
qed

text \<open>
  Without options on the fresh example menu, and with options that carry no tile on the
  example menu that still stores the unit tile.
\<close>

theorem show_without_stored_tile_witness:
  "tile exampleMenu = None \<and> permanentButtons exampleMenu \<noteq> []
   \<and> createAdditionalButtons exampleMenu = Inr ([], exampleMenu)
   \<and> (\<exists>s'. WeaponSelectorMenu_show unitTile None exampleMenu = Inr s'
          \<and> tile s' = None
          \<and> additionalButtons s' = Some []
          \<and> allCurrentButtons s' = [cancelButton]
          \<and> buttonsCount s' = 1
          \<and> isVisible s')
   \<and> tile (hide (projr shownExample)) = Some unitTile
   \<and> permanentButtons (hide (projr shownExample)) \<noteq> []
   \<and> (\<exists>s'. WeaponSelectorMenu_show unitTile (Some \<lparr>options_tile = None\<rparr>)
               (hide (projr shownExample)) = Inr s'
          \<and> tile s' = None
          \<and> additionalButtons s' = Some []
          \<and> allCurrentButtons s' = [cancelButton])"
  using show_without_stored_tile [where s = exampleMenu and cursor = unitTile and options = None]
    show_without_stored_tile [where s = "hide (projr shownExample)" and cursor = unitTile
      and options = "Some \<lparr>options_tile = None\<rparr>"]
  by (auto simp: exampleMenu_def WeaponSelectorMenu_new_fields hide_fields shownExample_state(2,3))

section \<open>No button, no menu\<close>

text \<open>
  C9: nothing guards the reads of the button list. With an empty permanent container
  \<^verbatim>\<open>show\<close> fails, whatever \<^verbatim>\<open>createAdditionalButtons\<close> returns; with
  \<^verbatim>\<open>buttonsCount\<close> 0, \<^verbatim>\<open>keydownDOWN\<close> computes \<^verbatim>\<open>NaN\<close> and fails, and on the
  empty list \<^verbatim>\<open>keydownUP\<close> and \<^verbatim>\<open>keydownENTER\<close> fail too. Conversely \<^verbatim>\<open>show\<close>
  succeeds, with \<^verbatim>\<open>buttonsCount\<close> at least 1, when there is a permanent button and
  \<^verbatim>\<open>createAdditionalButtons\<close> does not fail, and the three key handlers succeed when
  the cursor index lies in \<open>[0, buttonsCount)\<close> and the list has \<^verbatim>\<open>buttonsCount\<close>
  entries.
\<close>

theorem buttons_needed:
  "(permanentButtons s = [] \<longrightarrow> isl (show_menu createAdditionalButtons' cursor options s))
   \<and> (buttonsCount s = 0 \<longrightarrow>
        rem_number (plus_number (cursorIndex s) 1) (buttonsCount s) = NaN \<and> isl (keydownDOWN s))
   \<and> (allCurrentButtons s = [] \<and> buttonsCount s = 0 \<and> cursorIndex s = Num 0 \<longrightarrow>
        isl (keydownUP s) \<and> isl (keydownENTER s))
   \<and> (permanentButtons s \<noteq> [] \<and> (\<forall>t. \<not> isl (createAdditionalButtons' t)) \<longrightarrow>
        \<not> isl (show_menu createAdditionalButtons' cursor options s)
        \<and> 1 \<le> buttonsCount (projr (show_menu createAdditionalButtons' cursor options s)))
   \<and> (cursorIndex s = Num i \<and> 0 \<le> i \<and> i < buttonsCount s
        \<and> int (length (allCurrentButtons s)) = buttonsCount s \<longrightarrow>
        \<not> isl (keydownDOWN s) \<and> \<not> isl (keydownUP s) \<and> \<not> isl (keydownENTER s))"
proof -
  have d: "\<not> isl (show_menu createAdditionalButtons' cursor options s)
        \<and> 1 \<le> buttonsCount (projr (show_menu createAdditionalButtons' cursor options s))"
    if ne: "permanentButtons s \<noteq> []" and ok: "\<forall>t. \<not> isl (createAdditionalButtons' t)"
  proof -
    let ?s2 = "(case options of None \<Rightarrow> s | Some opts \<Rightarrow> s\<lparr>tile := options_tile opts\<rparr>)\<lparr>layerVisible := True\<rparr>"
    obtain container s3 where c: "createAdditionalButtons' ?s2 = Inr (container, s3)"
      using ok by (cases "createAdditionalButtons' ?s2") (auto dest: spec [of _ ?s2])
    obtain s' where "show_menu createAdditionalButtons' cursor options s = Inr s'"
      "buttonsCount s' = int (length (permanentButtons s))"
      using show_menu_result [where createAdditionalButtons' = createAdditionalButtons'
          and options = options and s = s and cursor = cursor and container = container
          and sAfter = s3] c ne
      by auto
    then show ?thesis using ne by (cases "permanentButtons s") simp_all
  qed
  have e: "\<not> isl (keydownDOWN s) \<and> \<not> isl (keydownUP s) \<and> \<not> isl (keydownENTER s)"
    if "cursorIndex s = Num i" "0 \<le> i" "i < buttonsCount s"
      "int (length (allCurrentButtons s)) = buttonsCount s"
    using keydownDOWN_step [OF that] keydownUP_step [OF that] that
    by (auto simp: keydownENTER_def onReceiver_def element_def Let_def)
  show ?thesis
    using show_menu_empty_fails keydownDOWN_no_buttons keys_on_empty_list d e by blast
qed

theorem buttons_needed_witness:
  "permanentButtons emptyMenu = [] \<and> isl (show_menu noContextButtons unitTile None emptyMenu)
   \<and> buttonsCount emptyMenu = 0 \<and> isl (keydownDOWN emptyMenu)
   \<and> allCurrentButtons emptyMenu = [] \<and> cursorIndex emptyMenu = Num 0
   \<and> isl (keydownUP emptyMenu) \<and> isl (keydownENTER emptyMenu)
   \<and> permanentButtons exampleMenu \<noteq> [] \<and> (\<forall>t. \<not> isl (noContextButtons t))
   \<and> \<not> isl (show_menu noContextButtons unitTile None exampleMenu)
   \<and> cursorIndex threeButtonMenu = Num 2 \<and> 2 < buttonsCount threeButtonMenu
   \<and> int (length (allCurrentButtons threeButtonMenu)) = buttonsCount threeButtonMenu
   \<and> \<not> isl (keydownDOWN threeButtonMenu) \<and> \<not> isl (keydownUP threeButtonMenu)
   \<and> \<not> isl (keydownENTER threeButtonMenu)"
  using buttons_needed [where s = emptyMenu and createAdditionalButtons' = noContextButtons
      and cursor = unitTile and options = None and i = 0]
    buttons_needed [where s = exampleMenu and createAdditionalButtons' = noContextButtons
      and cursor = unitTile and options = None and i = 0]
    buttons_needed [where s = threeButtonMenu and createAdditionalButtons' = noContextButtons
      and cursor = unitTile and options = None and i = 2]
  by (simp add: emptyMenu_def exampleMenu_def WeaponSelectorMenu_new_fields noContextButtons_def
      threeButtonMenu_fields)

section \<open>The stored tile outlives hide\<close>

text \<open>
  C10: \<^verbatim>\<open>hide()\<close> leaves the stored tile as it is; \<^verbatim>\<open>show\<close> without options keeps
  it and \<^verbatim>\<open>show\<close> with options replaces it with the tile of the options. So after a
  show with a tile and a hide, a show without options still holds that tile, and
  \<^verbatim>\<open>sendAction\<close> emits it as the payload of the event named by the prefix followed by
  the action.
\<close>

theorem stale_tile_reused:
  "tile (hide s) = tile s
   \<and> (WeaponSelectorMenu_show cursor None s = Inr s' \<longrightarrow> tile s' = tile s)
   \<and> (WeaponSelectorMenu_show cursor (Some opts) s = Inr s' \<longrightarrow> tile s' = options_tile opts)
   \<and> (WeaponSelectorMenu_show cursor (Some opts) s = Inr shown
        \<and> WeaponSelectorMenu_show cursor' None (hide shown) = Inr reshown \<longrightarrow>
          tile reshown = options_tile opts
          \<and> effectsSince reshown (sendAction weaponSelectorEvent action reshown)
              = [SceneEmit (weaponSelectorEvent @ action) [options_tile opts]])"
  using WeaponSelectorMenu_show_tile [of cursor None s s']
    WeaponSelectorMenu_show_tile [of cursor "Some opts" s s']
    WeaponSelectorMenu_show_tile [of cursor "Some opts" s shown]
    WeaponSelectorMenu_show_tile [of cursor' None "hide shown" reshown]
  by (auto simp: hide_fields sendAction_def emitEffect_def effectsSince_def)

theorem stale_tile_reused_witness:
  "WeaponSelectorMenu_show unitTile (Some \<lparr>options_tile = Some unitTile\<rparr>) exampleMenu
     = Inr (projr shownExample)
   \<and> WeaponSelectorMenu_show unitTile None (hide (projr shownExample)) = Inr (projr reshownExample)
   \<and> tile (hide (projr shownExample)) = Some unitTile
   \<and> tile (projr reshownExample) = Some unitTile
   \<and> effectsSince (projr reshownExample)
        (sendAction ''weaponSelector.'' ''cancel'' (projr reshownExample))
       = [SceneEmit ''weaponSelector.cancel'' [Some unitTile]]"
proof -
  have a: "WeaponSelectorMenu_show unitTile (Some \<lparr>options_tile = Some unitTile\<rparr>) exampleMenu
     = Inr (projr shownExample)"
    using shownExample_state(1) by (simp add: shownExample_def)
  have b: "WeaponSelectorMenu_show unitTile None (hide (projr shownExample)) = Inr (projr reshownExample)"
    using reshownExample_state by (simp add: reshownExample_def)
  show ?thesis
    using stale_tile_reused [where s = exampleMenu and cursor = unitTile
        and opts = "\<lparr>options_tile = Some unitTile\<rparr>" and shown = "projr shownExample"
        and cursor' = unitTile and reshown = "projr reshownExample" and s' = "projr shownExample"
        and weaponSelectorEvent = "''weaponSelector.''" and action = "''cancel''"]
      stale_tile_reused [where s = "projr shownExample"] a b
    by simp
qed

end
